theory Spec2Isabelle
  imports Main "HOL-Library.Sublist" "HOL-Library.AList"
begin

section \<open>Data model\<close>

text \<open>
  Python integers are unbounded, so every byte and every parameter value is an \<open>int\<close>.
  Python's \<open>%\<close> with a positive divisor is HOL's \<open>mod\<close> on \<open>int\<close> (the result is
  never negative).  A message is a \<open>List[int]\<close>, here an \<open>int list\<close>.

  The parameter catalog is the YAML document \<open>roland_jv_1080_fixed.yaml\<close>, which is
  data and not code; it is a parameter of every definition below.  The catalog is held
  in decoded form: where the YAML has a hexadecimal string and the code calls
  \<open>int(s, 16)\<close>, the model holds the resulting integer; the same goes for the
  \<open>device_id\<close> argument of the encoder.  Keys of the catalog that no modelled function
  reads (\<open>description\<close>, \<open>bytes\<close>, \<open>default_device_id_hex\<close>) are left out.  Logging
  is not modelled.
\<close>

datatype py_error = IndexError | ValueError | TypeError

text \<open>One entry of a group's \<open>parameters\<close> list.  The keys \<open>min\<close>, \<open>max\<close> and
  \<open>type\<close> are optional in the YAML.\<close>

record param_def =
  pd_name :: string
  pd_offset :: int
  pd_min :: "int option"
  pd_max :: "int option"
  pd_type :: "string option"

record param_group =
  address_bytes_1_3 :: "int list"
  parameters :: "param_def list"

text \<open>A Python dict keeps insertion order and has one entry per key: an association
  list, read with \<open>map_of\<close>.\<close>

type_synonym groups = "(string \<times> param_group) list"

record common_info =
  manufacturer_id :: int
  model_id :: int
  command_id_dt1 :: int

text \<open>
  \<open>JV1080Manager.__init__\<close> reads the groups from
  \<open>config['roland_jv_1080']['sysex_parameter_groups']\<close>; the bulk helpers
  \<open>_get_common_parameter_definitions\<close> and \<open>_get_part_parameter_definitions\<close> of
  \<open>sysex_parser.py\<close> read \<open>config.get('sysex_parameter_groups', {})\<close>, a key of the top
  level of the same document.  The two are kept apart.
\<close>

record config =
  cfg_common_info :: common_info
  parameter_groups :: groups
  toplevel_groups :: groups

text \<open>\<open>Union[int, List[int]]\<close>, the value of an encoder call and of a parameter parsed
  by \<open>sysex_parser.py\<close>.\<close>

datatype sx_value = Scalar int | Bytes "int list"

text \<open>\<open>ParsedParameter\<close> of \<open>sysex_parser.py\<close>.\<close>

record ParsedParameter =
  group_name :: string
  parameter_name :: string
  pvalue :: sx_value
  address :: "int list"
  raw_message :: "int list"

section \<open>Encoder (\<open>jv1080_manager.py\<close>)\<close>

definition calculate_checksum :: "int list \<Rightarrow> int" where
  "calculate_checksum data = (0x80 - (sum_list data mod 0x80)) mod 0x80"

text \<open>
  \<open>build_sysex_message\<close>.  Every \<open>raise ValueError\<close> of the source is an \<open>Inl\<close>.  The
  parameter is the first one of the group with the given name.  The range check runs
  only for a scalar and only when both bounds are present.
\<close>

definition build_sysex_message ::
  "config \<Rightarrow> string \<Rightarrow> string \<Rightarrow> sx_value \<Rightarrow> int \<Rightarrow> py_error + int list" where
  "build_sysex_message cfg gname pname v device_id =
    (case map_of (parameter_groups cfg) gname of
       None \<Rightarrow> Inl ValueError
     | Some grp \<Rightarrow>
        (case find (\<lambda>p. pd_name p = pname) (parameters grp) of
           None \<Rightarrow> Inl ValueError
         | Some p \<Rightarrow>
            (let ci = cfg_common_info cfg;
                 addr = address_bytes_1_3 grp @ [pd_offset p];
                 build = (\<lambda>data.
                    [0xF0, manufacturer_id ci, device_id, model_id ci, command_id_dt1 ci]
                      @ addr @ data @ [calculate_checksum (addr @ data), 0xF7])
             in case v of
                  Scalar n \<Rightarrow>
                    (case (pd_min p, pd_max p) of
                       (Some lo, Some hi) \<Rightarrow>
                          if lo \<le> n \<and> n \<le> hi then Inr (build [n]) else Inl ValueError
                     | _ \<Rightarrow> Inr (build [n]))
                | Bytes bs \<Rightarrow> Inr (build bs))))"

section \<open>Decoder of \<open>sysex_parser.py\<close>: framing and validation\<close>

text \<open>
  \<open>_extract_sysex_messages\<close>: the loop state is \<open>(messages, current_message, in_sysex)\<close>;
  one step per input byte, in the order of the source's \<open>if/elif\<close> chain.  The warnings
  only log.  The function returns \<open>messages\<close>: what is still in \<open>current_message\<close> at
  the end of the data is not returned.
\<close>

type_synonym frame_state = "int list list \<times> int list \<times> bool"

fun frame_step :: "frame_state \<Rightarrow> int \<Rightarrow> frame_state" where
  "frame_step (messages, current_message, in_sysex) byte =
    (if byte = 0xF0 then (messages, [byte], True)
     else if byte = 0xF7 then
       (if in_sysex then (messages @ [current_message @ [byte]], [], False)
        else (messages, current_message, in_sysex))
     else if in_sysex then (messages, current_message @ [byte], in_sysex)
     else (messages, current_message, in_sysex))"

definition frame_run :: "frame_state \<Rightarrow> int list \<Rightarrow> frame_state" where
  "frame_run st data = foldl frame_step st data"

definition extract_sysex_messages :: "int list \<Rightarrow> int list list" where
  "extract_sysex_messages data = fst (frame_run ([], [], False) data)"

text \<open>\<open>_validate_roland_header\<close>: the device id, byte 2, is not compared.\<close>

definition validate_roland_header :: "common_info \<Rightarrow> int list \<Rightarrow> bool" where
  "validate_roland_header ci message =
    (if length message < 6 then False
     else message ! 0 = 0xF0 \<and> message ! 1 = manufacturer_id ci
          \<and> message ! 3 = model_id ci \<and> message ! 4 = command_id_dt1 ci)"

text \<open>
  \<open>_verify_checksum\<close>.  \<open>message[5:-2]\<close> is \<open>drop 5 (take (length message - 2) message)\<close>
  and \<open>message[-2]\<close> is \<open>message ! (length message - 2)\<close>; both are read only when the
  length is at least 8.
\<close>

definition verify_checksum :: "int list \<Rightarrow> bool" where
  "verify_checksum message =
    (if length message < 8 then False
     else (let checksum_data = drop 5 (take (length message - 2) message);
               calculated = (0x80 - (sum_list checksum_data mod 0x80)) mod 0x80;
               received = message ! (length message - 2)
           in calculated = received))"

section \<open>Decimal formatting\<close>

text \<open>\<open>str(n)\<close> and the f-string format \<open>{n:02d}\<close> for a Python int: at least two
  characters, padded with zeros on the left; the sign counts as a character.\<close>

fun str_nat :: "nat \<Rightarrow> string" where
  "str_nat n = (if n < 10 then [''0123456789'' ! n]
                else str_nat (n div 10) @ [''0123456789'' ! (n mod 10)])"

declare str_nat.simps [simp del]

definition str_int :: "int \<Rightarrow> string" where
  "str_int n = (if n < 0 then CHR ''-'' # str_nat (nat (- n)) else str_nat (nat n))"

definition fmt02d :: "int \<Rightarrow> string" where
  "fmt02d n = (if 0 \<le> n \<and> n < 10 then CHR ''0'' # str_int n else str_int n)"

text \<open>\<open>xs[i]\<close> of Python: a negative index counts from the end, an index outside the
  list raises.\<close>

definition py_index :: "'a list \<Rightarrow> int \<Rightarrow> py_error + 'a" where
  "py_index xs i =
    (if 0 \<le> i then (if i < int (length xs) then Inr (xs ! nat i) else Inl IndexError)
     else (if - i \<le> int (length xs) then Inr (xs ! nat (int (length xs) + i))
           else Inl IndexError))"

section \<open>Address index of \<open>sysex_parser.py\<close>\<close>

type_synonym lookup = "int list \<rightharpoonup> (string \<times> string \<times> param_def)"

text \<open>
  \<open>_build_address_lookup\<close>, the body of the loop over the groups.  \<open>base_addr[0]\<close> raises
  on an empty prefix and \<open>perf_addr[1] = performance_slot\<close> raises on a prefix of one
  byte.  A later assignment to the same address replaces the earlier one.
\<close>

definition lookup_add_group :: "lookup \<Rightarrow> string \<times> param_group \<Rightarrow> py_error + lookup" where
  "lookup_add_group lk g =
    (let group_name = fst g; group_info = snd g; base_addr = address_bytes_1_3 group_info
     in if base_addr = [] then Inl IndexError
        else if base_addr ! 0 = 0x11 \<and> prefix ''expansion_performance'' group_name then
          (if length base_addr < 2 then Inl IndexError
           else Inr (fold (\<lambda>performance_slot.
                       fold (\<lambda>param lk'.
                          lk'(base_addr[1 := performance_slot] @ [pd_offset param] \<mapsto>
                                (group_name @ ''_perf_'' @ fmt02d performance_slot,
                                 pd_name param, param)))
                        (parameters group_info))
                     (map int [0..<64]) lk))
        else Inr (fold (\<lambda>param lk'.
                     lk'(base_addr @ [pd_offset param] \<mapsto> (group_name, pd_name param, param)))
                   (parameters group_info) lk))"

fun build_lookup_from :: "lookup \<Rightarrow> groups \<Rightarrow> py_error + lookup" where
  "build_lookup_from lk [] = Inr lk"
| "build_lookup_from lk (g # gs) =
     (case lookup_add_group lk g of Inl e \<Rightarrow> Inl e | Inr lk' \<Rightarrow> build_lookup_from lk' gs)"

definition build_address_lookup :: "config \<Rightarrow> py_error + lookup" where
  "build_address_lookup cfg = build_lookup_from Map.empty (parameter_groups cfg)"

section \<open>Single-parameter decoding (\<open>sysex_parser.py\<close>)\<close>

text \<open>\<open>parse_sysex_message\<close>: \<open>None\<close> is the source's \<open>return None\<close>.  \<open>message[5:9]\<close> is
  \<open>drop 5 (take 9 message)\<close>, \<open>message[9:-2]\<close> is
  \<open>drop 9 (take (length message - 2) message)\<close>.\<close>

definition parse_sysex_message :: "config \<Rightarrow> lookup \<Rightarrow> int list \<Rightarrow> ParsedParameter option" where
  "parse_sysex_message cfg address_lookup message =
    (if \<not> validate_roland_header (cfg_common_info cfg) message then None
     else if \<not> verify_checksum message then None
     else if length message < 10 then None
     else (let addr = drop 5 (take 9 message);
               data_bytes = drop 9 (take (length message - 2) message)
           in case address_lookup addr of
                Some (gname, pname, param_info) \<Rightarrow>
                  Some \<lparr>group_name = gname, parameter_name = pname,
                        pvalue = (if length data_bytes = 1 then Scalar (data_bytes ! 0)
                                  else Bytes data_bytes),
                        address = addr, raw_message = message\<rparr>
              | None \<Rightarrow> None))"

section \<open>Bulk block decoding (\<open>sysex_parser.py\<close>)\<close>

text \<open>The dict built by \<open>_get_common_parameter_definitions\<close> and
  \<open>_get_part_parameter_definitions\<close>: one entry per parameter name, in the order of
  first insertion, a repeated name overwriting the value (\<open>AList.update\<close>).\<close>

record param_info =
  pi_min :: int
  pi_max :: int
  pi_type :: string

definition param_info_of :: "param_def \<Rightarrow> param_info" where
  "param_info_of param =
    \<lparr>pi_min = (case pd_min param of None \<Rightarrow> 0 | Some v \<Rightarrow> v),
     pi_max = (case pd_max param of None \<Rightarrow> 127 | Some v \<Rightarrow> v),
     pi_type = (case pd_type param of None \<Rightarrow> ''unsigned'' | Some t \<Rightarrow> t)\<rparr>"

definition definitions_dict :: "param_def list \<Rightarrow> (string \<times> param_info) list" where
  "definitions_dict params =
     fold (\<lambda>param d. AList.update (pd_name param) (param_info_of param) d) params []"

definition get_common_parameter_definitions :: "config \<Rightarrow> (string \<times> param_info) list" where
  "get_common_parameter_definitions cfg =
    (case map_of (toplevel_groups cfg) ''expansion_performance_common'' of
       None \<Rightarrow> definitions_dict (drop 12 [])
     | Some common_group \<Rightarrow> definitions_dict (drop 12 (parameters common_group)))"

definition get_part_parameter_definitions :: "config \<Rightarrow> int \<Rightarrow> (string \<times> param_info) list" where
  "get_part_parameter_definitions cfg part_num =
    (case map_of (toplevel_groups cfg) (''expansion_performance_part_'' @ str_int part_num) of
       None \<Rightarrow> definitions_dict []
     | Some part_group \<Rightarrow> definitions_dict (parameters part_group))"

text \<open>The conversion both bulk loops apply to a byte before emitting it.\<close>

definition signed_conversion :: "param_info \<Rightarrow> int \<Rightarrow> int" where
  "signed_conversion info param_value =
     (if pi_type info = ''signed'' \<and> param_value > 63 then param_value - 128 else param_value)"

text \<open>\<open>_parse_common_bulk_data\<close>.  The loop stops at the first index that is not below
  \<open>len(common_data)\<close>, so it runs over the pairs of \<open>zip\<close>.\<close>

definition parse_common_bulk_data :: "config \<Rightarrow> int \<Rightarrow> int list \<Rightarrow> ParsedParameter list" where
  "parse_common_bulk_data cfg perf_slot data_bytes =
    (if length data_bytes < 12 then []
     else (let gname = ''expansion_performance_common_perf_'' @ fmt02d perf_slot;
               common_data = drop 12 data_bytes;
               common_param_info = get_common_parameter_definitions cfg
           in \<lparr>group_name = gname, parameter_name = ''Performance name'',
                pvalue = Bytes (take 12 data_bytes),
                address = [0x11, perf_slot, 0x00, 0x00], raw_message = []\<rparr>
              # map (\<lambda>(i, (param_name, info), param_value).
                       \<lparr>group_name = gname, parameter_name = param_name,
                        pvalue = Scalar (signed_conversion info param_value),
                        address = [0x11, perf_slot, 0x00, 0x0C + int i], raw_message = []\<rparr>)
                    (enumerate 0 (zip common_param_info common_data))))"

definition parse_part_bulk_data :: "config \<Rightarrow> int \<Rightarrow> int \<Rightarrow> int list \<Rightarrow> ParsedParameter list" where
  "parse_part_bulk_data cfg perf_slot part_num data_bytes =
    (let gname = ''expansion_performance_part_'' @ str_int part_num @ ''_perf_'' @ fmt02d perf_slot;
         part_param_info = get_part_parameter_definitions cfg part_num
     in map (\<lambda>(i, (name, info), param_value).
               \<lparr>group_name = gname, parameter_name = name,
                pvalue = Scalar (signed_conversion info param_value),
                address = [0x11, perf_slot, 0x10 + (part_num - 1) * 2, int i], raw_message = []\<rparr>)
            (enumerate 0 (zip part_param_info data_bytes)))"

text \<open>
  \<open>_parse_patch_common_bulk_data\<close>, \<open>_parse_patch_part_bulk_data\<close>,
  \<open>_parse_rhythm_common_bulk_data\<close> and \<open>_parse_rhythm_part_bulk_data\<close> have one body and
  differ in the group key.  The third byte of the address is read as
  \<open>group_info.get('address_bytes_1_3_hex', [None])[2]\<close> before the loop: it raises
  IndexError when the group is not in the catalog or its prefix has fewer than three
  bytes.  The loop reads \<open>data_bytes[off]\<close> for every parameter with
  \<open>off < len(data_bytes)\<close>.
\<close>

fun bulk_fields :: "string \<Rightarrow> int list \<Rightarrow> int list \<Rightarrow> param_def list
                    \<Rightarrow> py_error + ParsedParameter list" where
  "bulk_fields gname base_addr data_bytes [] = Inr []"
| "bulk_fields gname base_addr data_bytes (param # ps) =
    (let off = pd_offset param
     in if off < int (length data_bytes) then
          (case py_index data_bytes off of
             Inl e \<Rightarrow> Inl e
           | Inr v \<Rightarrow>
              (case bulk_fields gname base_addr data_bytes ps of
                 Inl e \<Rightarrow> Inl e
               | Inr rest \<Rightarrow>
                  Inr (\<lparr>group_name = gname, parameter_name = pd_name param, pvalue = Scalar v,
                        address = base_addr @ [off], raw_message = []\<rparr> # rest)))
        else bulk_fields gname base_addr data_bytes ps)"

definition parse_group_bulk_data :: "config \<Rightarrow> string \<Rightarrow> int \<Rightarrow> int list
                                     \<Rightarrow> py_error + ParsedParameter list" where
  "parse_group_bulk_data cfg group_key perf_slot data_bytes =
    (case map_of (parameter_groups cfg) group_key of
       None \<Rightarrow> Inl IndexError
     | Some group_info \<Rightarrow>
        (case py_index (address_bytes_1_3 group_info) 2 of
           Inl e \<Rightarrow> Inl e
         | Inr a3 \<Rightarrow>
            bulk_fields (group_key @ ''_perf_'' @ fmt02d perf_slot) [0x11, perf_slot, a3]
              data_bytes (parameters group_info)))"

definition parse_patch_common_bulk_data :: "config \<Rightarrow> int \<Rightarrow> int list \<Rightarrow> py_error + ParsedParameter list" where
  "parse_patch_common_bulk_data cfg perf_slot data_bytes =
     parse_group_bulk_data cfg ''expansion_patch_common'' perf_slot data_bytes"

definition parse_patch_part_bulk_data :: "config \<Rightarrow> int \<Rightarrow> int \<Rightarrow> int list \<Rightarrow> py_error + ParsedParameter list" where
  "parse_patch_part_bulk_data cfg perf_slot part_num data_bytes =
     parse_group_bulk_data cfg (''expansion_patch_part_'' @ str_int part_num) perf_slot data_bytes"

definition parse_rhythm_common_bulk_data :: "config \<Rightarrow> int \<Rightarrow> int list \<Rightarrow> py_error + ParsedParameter list" where
  "parse_rhythm_common_bulk_data cfg perf_slot data_bytes =
     parse_group_bulk_data cfg ''expansion_rhythm_common'' perf_slot data_bytes"

definition parse_rhythm_part_bulk_data :: "config \<Rightarrow> int \<Rightarrow> int \<Rightarrow> int list \<Rightarrow> py_error + ParsedParameter list" where
  "parse_rhythm_part_bulk_data cfg perf_slot part_num data_bytes =
     parse_group_bulk_data cfg (''expansion_rhythm_part_'' @ str_int part_num) perf_slot data_bytes"

text \<open>\<open>_parse_bulk_data_message\<close>: the branches in the order of the source; a selector
  is taken by the first branch whose test it passes.\<close>

definition parse_bulk_data_message :: "config \<Rightarrow> int list \<Rightarrow> py_error + ParsedParameter list" where
  "parse_bulk_data_message cfg message =
    (if \<not> validate_roland_header (cfg_common_info cfg) message then Inr []
     else if \<not> verify_checksum message then Inr []
     else if length message < 10 then Inr []
     else (let base_address = drop 5 (take 9 message);
               data_bytes = drop 9 (take (length message - 2) message)
           in if base_address ! 0 \<noteq> 0x11 then Inr []
              else (let perf_slot = base_address ! 1; part_type = base_address ! 2
                    in if part_type = 0x00 then
                         Inr (parse_common_bulk_data cfg perf_slot data_bytes)
                       else if part_type \<in> set [0x10, 0x12, 0x14, 0x16] then
                         Inr (parse_part_bulk_data cfg perf_slot
                                ((part_type - 0x10) div 2 + 1) data_bytes)
                       else if part_type = 0x20 then
                         parse_patch_common_bulk_data cfg perf_slot data_bytes
                       else if part_type \<in> set [0x22, 0x24, 0x26, 0x28] then
                         parse_patch_part_bulk_data cfg perf_slot
                           ((part_type - 0x22) div 2 + 1) data_bytes
                       else if part_type = 0x60 then
                         parse_rhythm_common_bulk_data cfg perf_slot data_bytes
                       else if 0x24 \<le> part_type \<and> part_type \<le> 0x62 then
                         parse_rhythm_part_bulk_data cfg perf_slot (part_type - 0x23) data_bytes
                       else Inr [])))"

section \<open>Decoding a file (\<open>sysex_parser.py\<close>)\<close>

text \<open>
  \<open>parse_sysex_file\<close>, from the bytes of the file on.  The body of the loop over the
  framed messages is \<open>parse_one_message\<close>; an exception raised in it leaves the loop and
  the function (the source has no handler there), so the result is \<open>Inl\<close>.
\<close>

definition parse_one_message :: "config \<Rightarrow> lookup \<Rightarrow> int list \<Rightarrow> py_error + ParsedParameter list" where
  "parse_one_message cfg address_lookup message =
    (let single = (case parse_sysex_message cfg address_lookup message of
                     Some param \<Rightarrow> Inr [param\<lparr>raw_message := message\<rparr>]
                   | None \<Rightarrow> Inr [])
     in if length message \<ge> 10 \<and> drop 5 (take 9 message) ! 0 = 0x11 then
          (case parse_bulk_data_message cfg message of
             Inl e \<Rightarrow> Inl e
           | Inr bulk_params \<Rightarrow>
               if bulk_params \<noteq> [] then
                 Inr (map (\<lambda>param. param\<lparr>raw_message := message\<rparr>) bulk_params)
               else single)
        else single)"

fun parse_messages :: "config \<Rightarrow> lookup \<Rightarrow> int list list \<Rightarrow> py_error + ParsedParameter list" where
  "parse_messages cfg address_lookup [] = Inr []"
| "parse_messages cfg address_lookup (message # rest) =
    (case parse_one_message cfg address_lookup message of
       Inl e \<Rightarrow> Inl e
     | Inr ps \<Rightarrow>
        (case parse_messages cfg address_lookup rest of
           Inl e \<Rightarrow> Inl e
         | Inr qs \<Rightarrow> Inr (ps @ qs)))"

definition parse_sysex_file :: "config \<Rightarrow> lookup \<Rightarrow> int list \<Rightarrow> py_error + ParsedParameter list" where
  "parse_sysex_file cfg address_lookup data =
     parse_messages cfg address_lookup (extract_sysex_messages data)"

section \<open>Decoder of \<open>jv1080_parser.py\<close>\<close>

text \<open>
  \<open>jv1080_parser.py\<close> has its own \<open>ParsedParameter\<close>, \<open>ParsedPreset\<close> and \<open>SysExParser\<close>.
  A value is a string (the patch name), a list (an envelope) or an int.  The fields
  \<open>interpreted_value\<close> and \<open>value_range\<close> of a parameter and \<open>category\<close>, \<open>bank\<close> and
  \<open>source_file\<close> of a preset hold display text computed by
  \<open>_interpret_parameter_value\<close>; no decision of the decoder or of the assembler reads
  them, and they are left out, as is \<open>patch_index\<close>, which this module never assigns.
\<close>

datatype jv_value = JInt int | JArr "int list" | JStr string

record JVParameter =
  jv_group_name :: string
  jv_parameter_name :: string
  jv_value :: jv_value
  jv_address :: "int list"
  jv_raw_message :: "int list"
  jv_manufacturer :: "int option"
  jv_device_id :: "int option"
  jv_model_id :: "int option"
  jv_command :: "int option"

record ParsedPreset =
  ps_name :: string
  ps_preset_type :: string
  ps_parameters :: "JVParameter list"
  ps_patch_number :: "jv_value option"
  ps_msb :: "int option"
  ps_lsb :: "int option"
  ps_pc :: "jv_value option"

datatype data_type = TString | TArray | TInt

text \<open>The dict \<open>common_params\<close> of \<open>_parse_common_block\<close>: name, offset, length, type,
  in the order of the literal.\<close>

definition common_params :: "(string \<times> nat \<times> nat \<times> data_type) list" where
  "common_params =
    [(''patch_name'', 0, 12, TString),
     (''category'', 12, 1, TInt),
     (''bank'', 13, 1, TInt),
     (''patch_number'', 14, 1, TInt),
     (''pcm_bank'', 15, 1, TInt),
     (''chorus_send'', 17, 1, TInt),
     (''reverb_send'', 18, 1, TInt),
     (''output_level'', 19, 1, TInt),
     (''lfo1_rate'', 20, 1, TInt),
     (''lfo1_delay'', 21, 1, TInt),
     (''lfo1_pmd'', 22, 1, TInt),
     (''lfo1_amd'', 23, 1, TInt),
     (''lfo2_rate'', 24, 1, TInt),
     (''lfo2_delay'', 25, 1, TInt),
     (''lfo2_dest'', 26, 1, TInt),
     (''lfo2_pmd'', 27, 1, TInt),
     (''lfo2_amd'', 28, 1, TInt),
     (''portamento_switch'', 29, 1, TInt),
     (''portamento_time'', 30, 1, TInt),
     (''pb_range'', 31, 1, TInt),
     (''fine_tune'', 32, 1, TInt),
     (''transpose'', 33, 1, TInt),
     (''pitch_eg_rate'', 34, 4, TArray),
     (''pitch_eg_level'', 38, 4, TArray),
     (''filter_eg_rate'', 42, 4, TArray),
     (''filter_eg_level'', 46, 4, TArray),
     (''amp_eg_rate'', 50, 4, TArray),
     (''amp_eg_level'', 54, 4, TArray),
     (''filter_cutoff'', 58, 1, TInt),
     (''filter_resonance'', 59, 1, TInt),
     (''filter_eg_attack_vel'', 60, 1, TInt),
     (''filter_eg_release_vel'', 61, 1, TInt),
     (''velocity_to_amp_depth'', 62, 1, TInt),
     (''key_range_low'', 63, 1, TInt),
     (''key_range_high'', 64, 1, TInt),
     (''vel_range_low'', 65, 1, TInt),
     (''vel_range_high'', 66, 1, TInt),
     (''aftertouch_depth'', 67, 1, TInt),
     (''key_transpose'', 68, 1, TInt),
     (''portamento_curve'', 69, 1, TInt)]"

definition tone_params :: "(string \<times> nat \<times> nat \<times> data_type) list" where
  "tone_params =
    [(''tone_switch'', 0, 1, TInt),
     (''waveform_bank'', 1, 1, TInt),
     (''waveform_number'', 2, 1, TInt),
     (''coarse_tune'', 3, 1, TInt),
     (''fine_tune'', 4, 1, TInt),
     (''key_group'', 5, 1, TInt),
     (''key_range_low'', 6, 1, TInt),
     (''key_range_high'', 7, 1, TInt),
     (''vel_range_low'', 8, 1, TInt),
     (''vel_range_high'', 9, 1, TInt),
     (''output_level'', 10, 1, TInt),
     (''pan'', 11, 1, TInt),
     (''porta_switch'', 12, 1, TInt),
     (''porta_time'', 13, 1, TInt),
     (''pitch_eg_rate'', 14, 4, TArray),
     (''pitch_eg_level'', 18, 4, TArray),
     (''filter_eg_rate'', 22, 4, TArray),
     (''filter_eg_level'', 26, 4, TArray),
     (''amp_eg_rate'', 30, 4, TArray),
     (''amp_eg_level'', 34, 4, TArray),
     (''filter_cutoff'', 38, 1, TInt),
     (''filter_resonance'', 39, 1, TInt),
     (''filter_eg_attack_vel'', 40, 1, TInt),
     (''filter_eg_release_vel'', 41, 1, TInt),
     (''lfo_pmd_depth'', 42, 1, TInt),
     (''lfo_amd_depth'', 43, 1, TInt),
     (''lfo_key_sync'', 44, 1, TInt),
     (''key_to_level_depth'', 45, 1, TInt),
     (''key_num_detune_depth'', 46, 1, TInt),
     (''key_follow'', 47, 1, TInt),
     (''ams_depth'', 48, 1, TInt),
     (''pms_depth'', 49, 1, TInt),
     (''pitch_bend_range'', 50, 1, TInt),
     (''aftertouch_depth'', 51, 1, TInt),
     (''poly_mono_switch'', 52, 1, TInt),
     (''unison_detune'', 53, 1, TInt),
     (''unison_pan_spread'', 54, 1, TInt),
     (''resonance_mod_depth'', 55, 1, TInt)]"

text \<open>\<open>raw_bytes.decode("ascii", errors="ignore")\<close> drops every byte from 128 on;
  \<open>.strip(chars)\<close> removes the characters of \<open>chars\<close> at both ends and \<open>.rstrip\<close> at the
  right end.\<close>

definition decode_ascii_ignore :: "int list \<Rightarrow> string" where
  "decode_ascii_ignore raw_bytes = map char_of (filter (\<lambda>b. 0 \<le> b \<and> b < 128) raw_bytes)"

definition rstrip_chars :: "char list \<Rightarrow> string \<Rightarrow> string" where
  "rstrip_chars chars s = rev (dropWhile (\<lambda>c. c \<in> set chars) (rev s))"

definition strip_chars :: "char list \<Rightarrow> string \<Rightarrow> string" where
  "strip_chars chars s = rstrip_chars chars (dropWhile (\<lambda>c. c \<in> set chars) s)"

text \<open>The loop shared by \<open>_parse_common_block\<close> and \<open>_parse_tone_block\<close>: a parameter
  is extracted when \<open>offset + length <= len(payload)\<close>.  The two blocks differ in the
  table, the group name and the characters stripped from a string.\<close>

definition block_field :: "string \<Rightarrow> (string \<Rightarrow> string) \<Rightarrow> int list \<Rightarrow> int list \<Rightarrow> int list
                           \<Rightarrow> string \<times> nat \<times> nat \<times> data_type \<Rightarrow> JVParameter" where
  "block_field gname strip payload addr raw entry =
    (case entry of (param_name, offset, len, dtype) \<Rightarrow>
      \<lparr>jv_group_name = gname, jv_parameter_name = param_name,
       jv_value = (case dtype of
                     TString \<Rightarrow> JStr (strip (decode_ascii_ignore (take len (drop offset payload))))
                   | TArray \<Rightarrow> JArr (take len (drop offset payload))
                   | TInt \<Rightarrow> JInt (payload ! offset)),
       jv_address = addr, jv_raw_message = raw,
       jv_manufacturer = Some (raw ! 1), jv_device_id = Some (raw ! 2),
       jv_model_id = Some (raw ! 3), jv_command = Some (raw ! 4)\<rparr>)"

definition parse_common_block :: "int list \<Rightarrow> int list \<Rightarrow> int list \<Rightarrow> JVParameter list" where
  "parse_common_block payload addr raw =
    (if length payload < 72 then []
     else map (block_field ''Common'' (strip_chars [CHR 0x00, CHR '' '']) payload addr raw)
              (filter (\<lambda>(param_name, offset, len, dtype). offset + len \<le> length payload)
                      common_params))"

definition parse_tone_block :: "int list \<Rightarrow> int list \<Rightarrow> int list \<Rightarrow> JVParameter list" where
  "parse_tone_block payload addr raw =
    (if length payload < 58 then []
     else map (block_field ''Tone'' (rstrip_chars [CHR 0x00]) payload addr raw)
              (filter (\<lambda>(param_name, offset, len, dtype). offset + len \<le> length payload)
                      tone_params))"

text \<open>\<open>_parse_sysex_message\<close> of \<open>jv1080_parser.py\<close>.  \<open>sysex_msg[8:-1]\<close> is
  \<open>drop 8 (take (length sysex_msg - 1) sysex_msg)\<close>.  No checksum is computed.\<close>

definition jv_parse_sysex_message :: "int list \<Rightarrow> JVParameter list" where
  "jv_parse_sysex_message sysex_msg =
    (if length sysex_msg < 8 then []
     else if take 5 sysex_msg \<noteq> [0xF0, 0x41, 0x10, 0x6A, 0x12] then []
     else (let addr_h = sysex_msg ! 5; addr_m = sysex_msg ! 6; addr_l = sysex_msg ! 7;
               addr = [addr_h, addr_m, addr_l];
               payload = drop 8 (take (length sysex_msg - 1) sysex_msg)
           in if addr_h \<notin> set [0x11, 0x03] then []
              else if addr_h = 0x11 \<and> addr_l = 0x00 then
                parse_common_block payload addr sysex_msg
              else if addr_h = 0x11 \<and> addr_l \<in> set [0x10, 0x12, 0x14, 0x16] then
                map (\<lambda>param. param\<lparr>jv_group_name := ''Tone'' @ str_int ((addr_l - 0x10) div 2 + 1)\<rparr>)
                    (parse_tone_block payload addr sysex_msg)
              else if addr_h = 0x03 \<and> addr_l \<in> set [0x00, 0x10, 0x12, 0x14, 0x16] then
                (if length payload \<ge> 3 then
                   [\<lparr>jv_group_name = (if addr_l = 0x00 then ''TempCommon''
                                       else ''TempTone'' @ str_int ((addr_l - 0x10) div 2 + 1)),
                     jv_parameter_name = ''param_'' @ str_int (payload ! 0),
                     jv_value = JInt (or (push_bit 7 (payload ! 1)) (payload ! 2)),
                     jv_address = addr, jv_raw_message = sysex_msg,
                     jv_manufacturer = None, jv_device_id = None,
                     jv_model_id = None, jv_command = None\<rparr>]
                 else [])
              else []))"

text \<open>
  The scan of \<open>parse_sysex_file\<close> of \<open>jv1080_parser.py\<close>: bytes before an \<open>0xF0\<close> are
  skipped; from an \<open>0xF0\<close> the message runs to the first \<open>0xF7\<close> after it, whatever
  lies between; with no \<open>0xF7\<close> left the loop ends.
\<close>

function jv_frames :: "int list \<Rightarrow> int list list" where
  "jv_frames [] = []"
| "jv_frames (b # rest) =
    (if b \<noteq> 0xF0 then jv_frames rest
     else if dropWhile (\<lambda>x. x \<noteq> 0xF7) rest = [] then []
     else (b # takeWhile (\<lambda>x. x \<noteq> 0xF7) rest @ [0xF7])
            # jv_frames (tl (dropWhile (\<lambda>x. x \<noteq> 0xF7) rest)))"
  by pat_completeness auto
termination
proof (relation "measure length")
  show "wf (measure length)" by simp
next
  fix b :: int and rest :: "int list"
  show "(rest, b # rest) \<in> measure length" by simp
next
  fix b :: int and rest :: "int list"
  have "length (tl (dropWhile (\<lambda>x. x \<noteq> 0xF7) rest)) \<le> length (dropWhile (\<lambda>x. x \<noteq> 0xF7) rest)"
    by simp
  also have "\<dots> \<le> length rest" by (rule length_dropWhile_le)
  finally show "(tl (dropWhile (\<lambda>x. x \<noteq> 0xF7) rest), b # rest) \<in> measure length" by simp
qed

definition jv_parse_sysex_file :: "int list \<Rightarrow> JVParameter list" where
  "jv_parse_sysex_file data = concat (map jv_parse_sysex_message (jv_frames data))"

section \<open>Assembler (\<open>group_parameters_into_patches\<close> of \<open>jv1080_parser.py\<close>)\<close>

text \<open>\<open>str(value)\<close> for the three kinds of value.\<close>

fun join_comma :: "string list \<Rightarrow> string" where
  "join_comma [] = []"
| "join_comma [x] = x"
| "join_comma (x # y # ys) = x @ '', '' @ join_comma (y # ys)"

fun py_str :: "jv_value \<Rightarrow> string" where
  "py_str (JStr s) = s"
| "py_str (JInt n) = str_int n"
| "py_str (JArr xs) = ''['' @ join_comma (map str_int xs) @ '']''"

text \<open>
  The first loop, one step per parameter.  \<open>patches\<close> is a dict from \<open>param.address[1]\<close>
  to a preset, in insertion order.  A key not yet present gets a new preset, named
  \<open>Unknown\<close> unless this first parameter is the patch name.  The two last \<open>elif\<close>
  branches of the source repeat the tests for \<open>bank\<close> and \<open>patch_number\<close> and are never
  taken; the dicts they would fill are not read.
\<close>

definition new_preset :: "JVParameter \<Rightarrow> ParsedPreset" where
  "new_preset param =
    \<lparr>ps_name = (if jv_group_name param = ''Common'' \<and> jv_parameter_name param = ''patch_name''
                 then py_str (jv_value param) else ''Unknown''),
     ps_preset_type = ''JV-1080 Patch'', ps_parameters = [],
     ps_patch_number = None, ps_msb = None, ps_lsb = None, ps_pc = None\<rparr>"

definition absorb :: "JVParameter \<Rightarrow> ParsedPreset \<Rightarrow> ParsedPreset" where
  "absorb param preset =
    (let p1 = preset\<lparr>ps_parameters := ps_parameters preset @ [param]\<rparr>
     in if jv_group_name param = ''Common'' then
          (if jv_parameter_name param = ''patch_name'' then p1\<lparr>ps_name := py_str (jv_value param)\<rparr>
           else if jv_parameter_name param = ''category'' then p1
           else if jv_parameter_name param = ''bank'' then p1
           else if jv_parameter_name param = ''patch_number'' then
             p1\<lparr>ps_patch_number := Some (jv_value param)\<rparr>
           else p1)
        else p1)"

definition group_step :: "(int \<times> ParsedPreset) list \<Rightarrow> JVParameter
                          \<Rightarrow> py_error + (int \<times> ParsedPreset) list" where
  "group_step patches param =
    (case py_index (jv_address param) 1 of
       Inl e \<Rightarrow> Inl e
     | Inr patch_key \<Rightarrow>
        (let patches1 = (if map_of patches patch_key = None
                         then patches @ [(patch_key, new_preset param)] else patches)
         in Inr (AList.map_entry patch_key (absorb param) patches1)))"

fun group_loop :: "(int \<times> ParsedPreset) list \<Rightarrow> JVParameter list
                    \<Rightarrow> py_error + (int \<times> ParsedPreset) list" where
  "group_loop patches [] = Inr patches"
| "group_loop patches (param # rest) =
    (case group_step patches param of Inl e \<Rightarrow> Inl e | Inr patches' \<Rightarrow> group_loop patches' rest)"

text \<open>
  The second loop.  \<open>bank_val\<close> and \<open>pc_val\<close> are the values of the last parameters of
  the preset named \<open>bank\<close> and \<open>patch_number\<close> in group \<open>Common\<close>.  \<open>bank_val == n\<close> is
  false for a value that is no int; \<open>32 <= bank_val\<close> then raises TypeError.
\<close>

definition last_common_value :: "string \<Rightarrow> JVParameter list \<Rightarrow> jv_value option" where
  "last_common_value pname params =
    (case filter (\<lambda>p. jv_group_name p = ''Common'' \<and> jv_parameter_name p = pname) params of
       [] \<Rightarrow> None
     | x # xs \<Rightarrow> Some (jv_value (last (x # xs))))"

definition bank_select :: "jv_value option \<Rightarrow> jv_value option
                           \<Rightarrow> py_error + (int option \<times> int option \<times> jv_value option)" where
  "bank_select bank_val pc_val =
    (case (bank_val, pc_val) of
       (Some b, Some pc) \<Rightarrow>
         (case b of
            JInt n \<Rightarrow>
              Inr (if n = 0 then (Some 80, Some 0, Some pc)
                   else if n = 1 then (Some 80, Some 1, Some pc)
                   else if n = 2 then (Some 80, Some 2, Some pc)
                   else if n = 3 then (Some 80, Some 3, Some pc)
                   else if n = 4 then (Some 87, Some 0, Some pc)
                   else if n = 5 then (Some 86, Some 0, Some pc)
                   else if 32 \<le> n \<and> n \<le> 50 then (Some 89, Some (n - 32), Some pc)
                   else (None, None, Some pc))
          | _ \<Rightarrow> Inl TypeError)
     | _ \<Rightarrow> Inr (None, None, pc_val))"

definition assign_bank_select :: "ParsedPreset \<Rightarrow> py_error + ParsedPreset" where
  "assign_bank_select preset =
    (case bank_select (last_common_value ''bank'' (ps_parameters preset))
                      (last_common_value ''patch_number'' (ps_parameters preset)) of
       Inl e \<Rightarrow> Inl e
     | Inr (m, l, pc) \<Rightarrow> Inr (preset\<lparr>ps_msb := m, ps_lsb := l, ps_pc := pc\<rparr>))"

fun assign_loop :: "ParsedPreset list \<Rightarrow> py_error + ParsedPreset list" where
  "assign_loop [] = Inr []"
| "assign_loop (preset # rest) =
    (case assign_bank_select preset of
       Inl e \<Rightarrow> Inl e
     | Inr p \<Rightarrow> (case assign_loop rest of Inl e \<Rightarrow> Inl e | Inr ps \<Rightarrow> Inr (p # ps)))"

definition group_parameters_into_patches :: "JVParameter list \<Rightarrow> py_error + ParsedPreset list" where
  "group_parameters_into_patches all_params =
    (case group_loop [] all_params of
       Inl e \<Rightarrow> Inl e
     | Inr patches \<Rightarrow> assign_loop (map snd patches))"

section \<open>Notions used to state the assembler's properties\<close>

text \<open>The slot of a parameter is the byte the assembler groups by; \<open>first_occ\<close> lists
  the elements of a list once each, in the order of their first occurrence, which is
  the order in which a Python dict holds its keys.\<close>

definition slot_of :: "JVParameter \<Rightarrow> int" where
  "slot_of p = jv_address p ! 1"

definition first_occ :: "'a list \<Rightarrow> 'a list" where
  "first_occ xs = rev (remdups (rev xs))"

definition params_of :: "(int \<times> ParsedPreset) list \<Rightarrow> (int \<times> JVParameter list) list" where
  "params_of patches = map (\<lambda>(k, pr). (k, ps_parameters pr)) patches"

definition name_inv :: "ParsedPreset \<Rightarrow> bool" where
  "name_inv pr \<longleftrightarrow>
     ((\<forall>q\<in>set (ps_parameters pr).
          \<not> (jv_group_name q = ''Common'' \<and> jv_parameter_name q = ''patch_name''))
        \<longrightarrow> ps_name pr = ''Unknown'')"

definition mk_jv :: "string \<Rightarrow> string \<Rightarrow> jv_value \<Rightarrow> int list \<Rightarrow> JVParameter" where
  "mk_jv g n v a =
     \<lparr>jv_group_name = g, jv_parameter_name = n, jv_value = v, jv_address = a,
      jv_raw_message = [], jv_manufacturer = None, jv_device_id = None,
      jv_model_id = None, jv_command = None\<rparr>"

section \<open>Notions used to state the round trip\<close>

text \<open>
  The assignments that \<open>_build_address_lookup\<close> makes to its dict, in order, as a
  list of (address, entry) pairs; the dict is the result of making them one after
  the other (lemma \<open>build_lookup_entries\<close>).  \<open>data_of\<close> is the encoder's
  \<open>data\<close> for a value, \<open>decoded_value\<close> what the decoder returns for it: a list of
  exactly one element comes back as a scalar.
\<close>

definition upd :: "'k \<times> 'v \<Rightarrow> ('k \<rightharpoonup> 'v) \<Rightarrow> ('k \<rightharpoonup> 'v)" where
  "upd e m = m(fst e \<mapsto> snd e)"

definition group_entries ::
  "string \<times> param_group \<Rightarrow> (int list \<times> (string \<times> string \<times> param_def)) list" where
  "group_entries g =
    (let name = fst g; gi = snd g; base = address_bytes_1_3 gi
     in if base ! 0 = 0x11 \<and> prefix ''expansion_performance'' name
        then concat (map (\<lambda>slot. map (\<lambda>param. (base[1 := slot] @ [pd_offset param],
                             (name @ ''_perf_'' @ fmt02d slot, pd_name param, param)))
                           (parameters gi)) (map int [0..<64]))
        else map (\<lambda>param. (base @ [pd_offset param], (name, pd_name param, param)))
                 (parameters gi))"

definition index_entries :: "groups \<Rightarrow> (int list \<times> (string \<times> string \<times> param_def)) list" where
  "index_entries gs = concat (map group_entries gs)"

definition data_of :: "sx_value \<Rightarrow> int list" where
  "data_of v = (case v of Scalar n \<Rightarrow> [n] | Bytes bs \<Rightarrow> bs)"

fun decoded_value :: "sx_value \<Rightarrow> sx_value" where
  "decoded_value (Bytes [b]) = Scalar b"
| "decoded_value v = v"

section \<open>A small catalog and sample buffers\<close>

text \<open>A catalog with a few groups in the layout of the YAML document, used to run the
  definitions on concrete inputs.\<close>

definition mk_param :: "string \<Rightarrow> int \<Rightarrow> int \<Rightarrow> int \<Rightarrow> param_def" where
  "mk_param name off lo hi =
     \<lparr>pd_name = name, pd_offset = off, pd_min = Some lo, pd_max = Some hi, pd_type = None\<rparr>"

definition mk_signed_param :: "string \<Rightarrow> int \<Rightarrow> param_def" where
  "mk_signed_param name off =
     \<lparr>pd_name = name, pd_offset = off, pd_min = Some 0, pd_max = Some 127,
      pd_type = Some ''signed''\<rparr>"

definition example_groups :: groups where
  "example_groups =
    [(''system_common'',
        \<lparr>address_bytes_1_3 = [0x00, 0x00, 0x00],
         parameters = [mk_param ''Panel mode'' 0x00 0 2]\<rparr>),
     (''temp_performance_common'',
        \<lparr>address_bytes_1_3 = [0x01, 0x00, 0x00],
         parameters = [mk_param ''Performance name 1'' 0x00 32 127,
                       mk_param ''Performance name 2'' 0x01 32 127]\<rparr>),
     (''expansion_patch_part_2'',
        \<lparr>address_bytes_1_3 = [0x11, 0x00, 0x24],
         parameters = [mk_param ''Bank MSB'' 0x00 0 127, mk_param ''Bank LSB'' 0x01 0 127]\<rparr>),
     (''expansion_rhythm_part_2'',
        \<lparr>address_bytes_1_3 = [0x11, 0x09, 0x24],
         parameters = [mk_param ''Tone Switch'' 0x00 0 1]\<rparr>),
     (''expansion_rhythm_part_63'',
        \<lparr>address_bytes_1_3 = [0x11, 0x09, 0x61],
         parameters = [mk_param ''Tone Switch'' 0x00 0 1]\<rparr>),
     (''expansion_rhythm_part_64'',
        \<lparr>address_bytes_1_3 = [0x11, 0x09, 0x62],
         parameters = [mk_param ''Tone Switch'' 0x00 0 1]\<rparr>)]"

definition example_toplevel_groups :: groups where
  "example_toplevel_groups =
    [(''expansion_performance_common'',
        \<lparr>address_bytes_1_3 = [0x11, 0x00, 0x00],
         parameters = [mk_param ''Performance name 1'' 0x00 32 127,
                       mk_param ''Performance name 2'' 0x01 32 127,
                       mk_param ''Performance name 3'' 0x02 32 127,
                       mk_param ''Performance name 4'' 0x03 32 127,
                       mk_param ''Performance name 5'' 0x04 32 127,
                       mk_param ''Performance name 6'' 0x05 32 127,
                       mk_param ''Performance name 7'' 0x06 32 127,
                       mk_param ''Performance name 8'' 0x07 32 127,
                       mk_param ''Performance name 9'' 0x08 32 127,
                       mk_param ''Performance name 10'' 0x09 32 127,
                       mk_param ''Performance name 11'' 0x0A 32 127,
                       mk_param ''Performance name 12'' 0x0B 32 127,
                       mk_param ''EFX:Type'' 0x0C 0 39,
                       mk_signed_param ''Key transpose'' 0x0D]\<rparr>),
     (''expansion_performance_part_1'',
        \<lparr>address_bytes_1_3 = [0x11, 0x00, 0x10],
         parameters = [mk_param ''MIDI channel'' 0x00 0 15,
                       mk_signed_param ''Coarse tune'' 0x01]\<rparr>)]"

definition example_config :: config where
  "example_config =
    \<lparr>cfg_common_info = \<lparr>manufacturer_id = 0x41, model_id = 0x6A, command_id_dt1 = 0x12\<rparr>,
     parameter_groups = example_groups,
     toplevel_groups = example_toplevel_groups\<rparr>"

text \<open>The address index of the small catalog.\<close>

definition example_lookup :: lookup where
  "example_lookup =
     (case build_address_lookup example_config of Inr lk \<Rightarrow> lk | Inl e \<Rightarrow> Map.empty)"

text \<open>A catalog with one slot-expanded group.\<close>

definition tiny_config :: config where
  "tiny_config =
    \<lparr>cfg_common_info = \<lparr>manufacturer_id = 0x41, model_id = 0x6A, command_id_dt1 = 0x12\<rparr>,
     parameter_groups =
       [(''expansion_performance_common'',
          \<lparr>address_bytes_1_3 = [0x11, 0x00, 0x00],
           parameters = [mk_param ''Performance name 1'' 0x00 32 127]\<rparr>)],
     toplevel_groups = []\<rparr>"

text \<open>The buffer of the framing example: an unterminated fragment, then a message.\<close>

definition example_buffer :: "int list" where
  "example_buffer =
     [0xF0, 0x01, 0x02, 0xF0, 0x41, 0x10, 0x6A, 0x12, 0x00, 0x00, 0x00, 0x00, 0x65, 0x15, 0xF7]"

section \<open>Framing lemmas\<close>

lemma frame_run_Nil [simp]: "frame_run st [] = st"
  by (simp add: frame_run_def)

lemma frame_run_Cons [simp]: "frame_run st (b # bs) = frame_run (frame_step st b) bs"
  by (simp add: frame_run_def)

lemma frame_run_append: "frame_run st (xs @ ys) = frame_run (frame_run st xs) ys"
  by (simp add: frame_run_def)

lemma frame_step_prefix:
  "frame_step (ms0 @ ms, cur, ins) b =
     (case frame_step (ms, cur, ins) b of (ms', cur', ins') \<Rightarrow> (ms0 @ ms', cur', ins'))"
  by simp

lemma frame_run_prefix:
  "frame_run (ms0 @ ms, cur, ins) data =
     (case frame_run (ms, cur, ins) data of (ms', cur', ins') \<Rightarrow> (ms0 @ ms', cur', ins'))"
proof (induction data arbitrary: ms cur ins)
  case Nil
  then show ?case by simp
next
  case (Cons b bs)
  obtain ms1 cur1 ins1 where s: "frame_step (ms, cur, ins) b = (ms1, cur1, ins1)"
    by (cases "frame_step (ms, cur, ins) b") auto
  have "frame_step (ms0 @ ms, cur, ins) b = (ms0 @ ms1, cur1, ins1)"
    using frame_step_prefix [of ms0 ms cur ins b] s by simp
  then show ?case using Cons.IH [of ms1 cur1 ins1] s by simp
qed

lemma frame_step_F0: "frame_step (ms, cur, ins) 0xF0 = (ms, [0xF0], True)"
  by simp

text \<open>The messages completed so far are never touched again.\<close>

lemma frame_run_F0:
  "fst (frame_run (ms, cur, ins) (0xF0 # data)) = ms @ fst (frame_run ([], [], False) (0xF0 # data))"
proof -
  have "frame_run (ms, cur, ins) (0xF0 # data) = frame_run (ms @ [], [0xF0], True) data"
    by simp
  also have "\<dots> = (case frame_run ([], [0xF0], True) data of (ms', cur', ins') \<Rightarrow> (ms @ ms', cur', ins'))"
    by (rule frame_run_prefix)
  finally show ?thesis by (simp add: case_prod_beta)
qed

lemma frame_run_no_F7:
  "0xF7 \<notin> set ys \<Longrightarrow> fst (frame_run (ms, cur, ins) ys) = ms"
  by (induction ys arbitrary: cur ins) auto

lemma frame_run_body:
  "0xF0 \<notin> set body \<Longrightarrow> 0xF7 \<notin> set body \<Longrightarrow>
     frame_run (ms, cur, True) body = (ms, cur @ body, True)"
  by (induction body arbitrary: cur) auto

lemma frame_run_message:
  assumes "0xF0 \<notin> set body" "0xF7 \<notin> set body"
  shows "frame_run (ms, cur, ins) (0xF0 # body @ [0xF7]) = (ms @ [0xF0 # body @ [0xF7]], [], False)"
  using assms by (simp add: frame_run_append frame_run_body)

lemma extract_F0_split:
  "extract_sysex_messages (xs @ 0xF0 # ys)
     = extract_sysex_messages xs @ extract_sysex_messages (0xF0 # ys)"
proof -
  obtain ms cur ins where r: "frame_run ([], [], False) xs = (ms, cur, ins)"
    by (cases "frame_run ([], [], False) xs") auto
  show ?thesis
    unfolding extract_sysex_messages_def frame_run_append r
    using frame_run_F0 [of ms cur ins ys] by simp
qed

lemma extract_open_tail:
  assumes "0xF7 \<notin> set ys"
  shows "extract_sysex_messages (0xF0 # ys) = []"
  unfolding extract_sysex_messages_def using frame_run_no_F7 [OF assms, of "[]" "[0xF0]" True]
  by simp

lemma jv_frames_message:
  assumes "0xF7 \<notin> set body"
  shows "jv_frames (0xF0 # body @ 0xF7 # rest) = (0xF0 # body @ [0xF7]) # jv_frames rest"
proof -
  have a: "\<forall>x\<in>set body. x \<noteq> 0xF7" using assms by auto
  have t: "takeWhile (\<lambda>x. x \<noteq> 0xF7) (body @ 0xF7 # rest) = body"
    using a by (simp add: takeWhile_append2)
  have d: "dropWhile (\<lambda>x. x \<noteq> 0xF7) (body @ 0xF7 # rest) = 0xF7 # rest"
    using a by (simp add: dropWhile_append2)
  show ?thesis by (simp add: t d)
qed

lemma jv_frames_open:
  assumes "0xF7 \<notin> set body"
  shows "jv_frames (0xF0 # body) = []"
proof -
  have "\<forall>x\<in>set body. x \<noteq> 0xF7" using assms by auto
  then have "dropWhile (\<lambda>x. x \<noteq> 0xF7) body = []" by simp
  then show ?thesis by simp
qed

section \<open>Framing\<close>

text \<open>
  C5 (as amended).  In the framer of \<open>sysex_parser.py\<close>, for every buffer: an \<open>0xF0\<close>
  discards whatever message is in progress and restarts the capture at that byte, so
  the messages of \<open>xs @ 0xF0 # ys\<close> are the messages completed within \<open>xs\<close> followed by
  the messages of \<open>0xF0 # ys\<close>; a message still open at the end of the buffer is not
  emitted; and the example buffer yields exactly one message, the one that starts at
  the second \<open>0xF0\<close>.  The scan of \<open>jv1080_parser.py\<close> has no such restart: from an
  \<open>0xF0\<close> it takes everything up to the next \<open>0xF7\<close>, and it emits nothing for a
  message that is still open at the end of the buffer.
\<close>

theorem framing_restart:
  "extract_sysex_messages (xs @ 0xF0 # ys)
       = extract_sysex_messages xs @ extract_sysex_messages (0xF0 # ys)
   \<and> (0xF7 \<notin> set ys \<longrightarrow> extract_sysex_messages (xs @ 0xF0 # ys) = extract_sysex_messages xs)
   \<and> extract_sysex_messages example_buffer
       = [[0xF0, 0x41, 0x10, 0x6A, 0x12, 0x00, 0x00, 0x00, 0x00, 0x65, 0x15, 0xF7]]
   \<and> (0xF7 \<notin> set body \<longrightarrow>
         jv_frames (0xF0 # body @ 0xF7 # rest) = (0xF0 # body @ [0xF7]) # jv_frames rest
         \<and> jv_frames (0xF0 # body) = [])"
proof (intro conjI impI)
  show "extract_sysex_messages (xs @ 0xF0 # ys)
       = extract_sysex_messages xs @ extract_sysex_messages (0xF0 # ys)"
    by (rule extract_F0_split)
next
  assume "0xF7 \<notin> set ys"
  then show "extract_sysex_messages (xs @ 0xF0 # ys) = extract_sysex_messages xs"
    by (simp add: extract_F0_split extract_open_tail)
next
  show "extract_sysex_messages example_buffer
       = [[0xF0, 0x41, 0x10, 0x6A, 0x12, 0x00, 0x00, 0x00, 0x00, 0x65, 0x15, 0xF7]]"
    by (simp add: extract_sysex_messages_def example_buffer_def)
next
  assume "0xF7 \<notin> set body"
  then show "jv_frames (0xF0 # body @ 0xF7 # rest) = (0xF0 # body @ [0xF7]) # jv_frames rest"
    by (rule jv_frames_message)
next
  assume "0xF7 \<notin> set body"
  then show "jv_frames (0xF0 # body) = []"
    by (rule jv_frames_open)
qed

theorem framing_restart_witness:
  "0xF7 \<notin> set [0x01, 0x02 :: int]
   \<and> extract_sysex_messages ([0xF0, 0x41, 0xF7] @ 0xF0 # [0x01, 0x02]) = [[0xF0, 0x41, 0xF7]]
   \<and> extract_sysex_messages ([0xF0, 0x01, 0x02] @ 0xF0 # [0x41, 0xF7]) = [[0xF0, 0x41, 0xF7]]
   \<and> jv_frames (0xF0 # [0x01, 0x02] @ 0xF7 # [0x00, 0xF0, 0x03]) = [[0xF0, 0x01, 0x02, 0xF7]]"
  using framing_restart [of "[0xF0, 0x41, 0xF7]" "[0x01, 0x02]" "[0x01, 0x02]" "[0x00, 0xF0, 0x03]"]
        framing_restart [of "[0xF0, 0x01, 0x02]" "[0x41, 0xF7]" "[0x01, 0x02]" "[0x00, 0xF0, 0x03]"]
  by (simp add: extract_sysex_messages_def)

theorem framing_restart_counterexample:
  "jv_frames example_buffer = [example_buffer]
   \<and> jv_frames example_buffer \<noteq> [[0xF0, 0x41, 0x10, 0x6A, 0x12, 0x00, 0x00, 0x00, 0x00, 0x65, 0x15, 0xF7]]
   \<and> jv_parse_sysex_file example_buffer = []"
  by (simp add: example_buffer_def jv_parse_sysex_file_def jv_parse_sysex_message_def)

section \<open>Shape of a message\<close>

text \<open>The slices the decoder takes, on a message split into its five header bytes,
  its body, the checksum byte and the terminator.\<close>

lemma take_len_minus_2: "take (length (hdr @ body @ [c, t]) - 2) (hdr @ body @ [c, t]) = hdr @ body"
proof -
  have "hdr @ body @ [c, t] = (hdr @ body) @ [c, t]" by simp
  moreover have "length (hdr @ body @ [c, t]) - 2 = length (hdr @ body)" by simp
  ultimately show ?thesis by (metis append_eq_conv_conj)
qed

lemma slice_5_minus_2:
  "length hdr = 5 \<Longrightarrow> drop 5 (take (length (hdr @ body @ [c, t]) - 2) (hdr @ body @ [c, t])) = body"
  unfolding take_len_minus_2 by simp

lemma nth_minus_2: "(hdr @ body @ [c, t]) ! (length (hdr @ body @ [c, t]) - 2) = c"
proof -
  have "hdr @ body @ [c, t] = (hdr @ body) @ [c, t]" by simp
  moreover have "length (hdr @ body @ [c, t]) - 2 = length (hdr @ body)" by simp
  ultimately show ?thesis by (metis nth_append_length)
qed

lemma verify_checksum_split:
  assumes "length hdr = 5" and "1 \<le> length body"
  shows "verify_checksum (hdr @ body @ [c, t]) \<longleftrightarrow> c = calculate_checksum body"
proof -
  let ?m = "hdr @ body @ [c, t]"
  have "\<not> length ?m < 8" using assms by (cases body) simp_all
  then have "verify_checksum ?m \<longleftrightarrow>
      (0x80 - (sum_list (drop 5 (take (length ?m - 2) ?m)) mod 0x80)) mod 0x80
        = ?m ! (length ?m - 2)"
    unfolding verify_checksum_def Let_def by (simp only: if_False)
  then show ?thesis
    unfolding slice_5_minus_2 [OF assms(1)] nth_minus_2 calculate_checksum_def by auto
qed

lemma build_sysex_message_shape:
  assumes "build_sysex_message cfg gname pname v dev = Inr msg"
  obtains grp p data where
    "map_of (parameter_groups cfg) gname = Some grp"
    "find (\<lambda>p. pd_name p = pname) (parameters grp) = Some p"
    "data = (case v of Scalar n \<Rightarrow> [n] | Bytes bs \<Rightarrow> bs)"
    "msg = [0xF0, manufacturer_id (cfg_common_info cfg), dev, model_id (cfg_common_info cfg),
            command_id_dt1 (cfg_common_info cfg)]
           @ (address_bytes_1_3 grp @ [pd_offset p]) @ data
           @ [calculate_checksum ((address_bytes_1_3 grp @ [pd_offset p]) @ data), 0xF7]"
  using assms unfolding build_sysex_message_def Let_def
  by (auto split: option.splits sx_value.splits if_splits)

section \<open>Checksum arithmetic\<close>

text \<open>
  C2.  The checksum the encoder computes over address and data is
  \<open>(0x80 - (sum (A @ D) mod 0x80)) mod 0x80\<close>.  Every message the encoder returns for a
  group, a parameter and a value is the five header bytes, the address \<open>A\<close> of that
  parameter (the prefix of the group, then the offset of the parameter), the data
  \<open>D\<close> of that value, the formula over \<open>A @ D\<close> and \<open>0xF7\<close>, and the decoder's checksum
  test accepts it.  For five header bytes, a 4-byte address \<open>A\<close> and any data \<open>D\<close> the
  decoder's checksum test accepts the framed message \<open>hdr @ A @ D @ [c, t]\<close> exactly
  when \<open>c\<close>, its byte at index \<open>-2\<close>, equals the formula over \<open>bytes[5:-2]\<close>, which is
  \<open>A @ D\<close>.
\<close>

theorem checksum_arithmetic:
  "calculate_checksum (A @ D) = (0x80 - (sum_list (A @ D) mod 0x80)) mod 0x80
   \<and> (build_sysex_message cfg gname pname v dev = Inr msg \<longrightarrow>
        (\<exists>grp p. map_of (parameter_groups cfg) gname = Some grp
           \<and> find (\<lambda>p. pd_name p = pname) (parameters grp) = Some p
           \<and> msg = [0xF0, manufacturer_id (cfg_common_info cfg), dev,
                     model_id (cfg_common_info cfg), command_id_dt1 (cfg_common_info cfg)]
                    @ (address_bytes_1_3 grp @ [pd_offset p]) @ data_of v
                    @ [(0x80 - (sum_list ((address_bytes_1_3 grp @ [pd_offset p]) @ data_of v)
                                 mod 0x80)) mod 0x80, 0xF7]
           \<and> drop 5 (take (length msg - 2) msg)
               = (address_bytes_1_3 grp @ [pd_offset p]) @ data_of v
           \<and> verify_checksum msg))
   \<and> (length hdr = 5 \<and> length A = 4 \<longrightarrow>
        (let m = hdr @ A @ D @ [c, t]
         in drop 5 (take (length m - 2) m) = A @ D
            \<and> m ! (length m - 2) = c
            \<and> (verify_checksum m \<longleftrightarrow>
                 m ! (length m - 2)
                   = (0x80 - (sum_list (drop 5 (take (length m - 2) m)) mod 0x80)) mod 0x80)))"
proof (intro conjI impI)
  show "calculate_checksum (A @ D) = (0x80 - (sum_list (A @ D) mod 0x80)) mod 0x80"
    by (simp add: calculate_checksum_def)
next
  assume b: "build_sysex_message cfg gname pname v dev = Inr msg"
  from b obtain grp :: param_group and p :: param_def and data where
    g: "map_of (parameter_groups cfg) gname = Some grp" and
    f: "find (\<lambda>p. pd_name p = pname) (parameters grp) = Some p" and
    d: "data = (case v of Scalar n \<Rightarrow> [n] | Bytes bs \<Rightarrow> bs)" and
    m: "msg = [0xF0, manufacturer_id (cfg_common_info cfg), dev, model_id (cfg_common_info cfg),
            command_id_dt1 (cfg_common_info cfg)]
           @ (address_bytes_1_3 grp @ [pd_offset p]) @ data
           @ [calculate_checksum ((address_bytes_1_3 grp @ [pd_offset p]) @ data), 0xF7]"
    by (rule build_sysex_message_shape)
  let ?hdr = "[0xF0, manufacturer_id (cfg_common_info cfg), dev, model_id (cfg_common_info cfg),
            command_id_dt1 (cfg_common_info cfg)]"
  let ?body = "(address_bytes_1_3 grp @ [pd_offset p]) @ data_of v"
  have dv: "data = data_of v" unfolding d data_of_def ..
  have h: "length ?hdr = 5" by simp
  have n: "1 \<le> length ?body" by simp
  have m': "msg = ?hdr @ ?body @ [calculate_checksum ?body, 0xF7]"
    unfolding m dv by simp
  have e: "msg = ?hdr @ ?body @ [(0x80 - (sum_list ?body mod 0x80)) mod 0x80, 0xF7]"
    unfolding m' calculate_checksum_def ..
  have s: "drop 5 (take (length msg - 2) msg) = ?body"
    unfolding m' by (rule slice_5_minus_2 [OF h])
  have "verify_checksum (?hdr @ ?body @ [calculate_checksum ?body, 0xF7])"
    unfolding verify_checksum_split [OF h n] ..
  then have c: "verify_checksum msg" unfolding m' .
  from e have e2: "msg = [0xF0, manufacturer_id (cfg_common_info cfg), dev,
                     model_id (cfg_common_info cfg), command_id_dt1 (cfg_common_info cfg)]
                    @ (address_bytes_1_3 grp @ [pd_offset p]) @ data_of v
                    @ [(0x80 - (sum_list ((address_bytes_1_3 grp @ [pd_offset p]) @ data_of v)
                                 mod 0x80)) mod 0x80, 0xF7]"
    by simp
  from g f e2 s c
  show "\<exists>grp p. map_of (parameter_groups cfg) gname = Some grp
           \<and> find (\<lambda>p. pd_name p = pname) (parameters grp) = Some p
           \<and> msg = [0xF0, manufacturer_id (cfg_common_info cfg), dev,
                     model_id (cfg_common_info cfg), command_id_dt1 (cfg_common_info cfg)]
                    @ (address_bytes_1_3 grp @ [pd_offset p]) @ data_of v
                    @ [(0x80 - (sum_list ((address_bytes_1_3 grp @ [pd_offset p]) @ data_of v)
                                 mod 0x80)) mod 0x80, 0xF7]
           \<and> drop 5 (take (length msg - 2) msg)
               = (address_bytes_1_3 grp @ [pd_offset p]) @ data_of v
           \<and> verify_checksum msg"
    by blast
next
  assume a: "length hdr = 5 \<and> length A = 4"
  then have h: "length hdr = 5" and b: "1 \<le> length (A @ D)" by simp_all
  have s: "drop 5 (take (length (hdr @ (A @ D) @ [c, t]) - 2) (hdr @ (A @ D) @ [c, t])) = A @ D"
    by (rule slice_5_minus_2 [OF h])
  have n: "(hdr @ (A @ D) @ [c, t]) ! (length (hdr @ (A @ D) @ [c, t]) - 2) = c"
    by (rule nth_minus_2)
  have v: "verify_checksum (hdr @ (A @ D) @ [c, t]) \<longleftrightarrow> c = calculate_checksum (A @ D)"
    by (rule verify_checksum_split [OF h b])
  have e: "hdr @ (A @ D) @ [c, t] = hdr @ A @ D @ [c, t]" by simp
  show "let m = hdr @ A @ D @ [c, t]
         in drop 5 (take (length m - 2) m) = A @ D
            \<and> m ! (length m - 2) = c
            \<and> (verify_checksum m \<longleftrightarrow>
                 m ! (length m - 2)
                   = (0x80 - (sum_list (drop 5 (take (length m - 2) m)) mod 0x80)) mod 0x80)"
    unfolding Let_def using s n v unfolding e calculate_checksum_def by auto
qed

theorem checksum_arithmetic_witness:
  "build_sysex_message example_config ''temp_performance_common'' ''Performance name 1''
       (Scalar 65) 0x10
     = Inr [0xF0, 0x41, 0x10, 0x6A, 0x12, 0x01, 0x00, 0x00, 0x00, 65, 62, 0xF7]
   \<and> drop 5 (take (length [0xF0, 0x41, 0x10, 0x6A, 0x12, 0x01, 0x00, 0x00, 0x00, 65, 62, 0xF7 :: int] - 2)
               [0xF0, 0x41, 0x10, 0x6A, 0x12, 0x01, 0x00, 0x00, 0x00, 65, 62, 0xF7 :: int])
       = [0x01, 0x00, 0x00, 0x00] @ [65]
   \<and> (0x80 - (sum_list ([0x01, 0x00, 0x00, 0x00] @ [65 :: int]) mod 0x80)) mod 0x80 = 62
   \<and> verify_checksum [0xF0, 0x41, 0x10, 0x6A, 0x12, 0x01, 0x00, 0x00, 0x00, 65, 62, 0xF7]
   \<and> length [0xF0, 0x41, 0x10, 0x6A, 0x12 :: int] = 5 \<and> length [0x01, 0x00, 0x00, 0x00 :: int] = 4
   \<and> verify_checksum ([0xF0, 0x41, 0x10, 0x6A, 0x12] @ [0x01, 0x00, 0x00, 0x00] @ [65] @ [62, 0xF7])
   \<and> \<not> verify_checksum ([0xF0, 0x41, 0x10, 0x6A, 0x12] @ [0x01, 0x00, 0x00, 0x00] @ [65] @ [0, 0xF7])"
proof -
  let ?msg = "[0xF0, 0x41, 0x10, 0x6A, 0x12, 0x01, 0x00, 0x00, 0x00, 65, 62, 0xF7 :: int]"
  have b: "build_sysex_message example_config ''temp_performance_common'' ''Performance name 1''
       (Scalar 65) 0x10 = Inr ?msg"
    by (simp add: build_sysex_message_def example_config_def example_groups_def mk_param_def
        calculate_checksum_def)
  have l: "length [0xF0, 0x41, 0x10, 0x6A, 0x12 :: int] = 5 \<and> length [0x01, 0x00, 0x00, 0x00 :: int] = 4"
    by simp
  have d: "drop 5 (take (length ?msg - 2) ?msg) = [0x01, 0x00, 0x00, 0x00] @ [65]" by simp
  have f: "(0x80 - (sum_list ([0x01, 0x00, 0x00, 0x00] @ [65 :: int]) mod 0x80)) mod 0x80 = 62"
    by simp
  note t1 = checksum_arithmetic [of "[0x01, 0x00, 0x00, 0x00]" "[65]" example_config
      "''temp_performance_common''" "''Performance name 1''" "Scalar 65" "0x10" ?msg
      "[0xF0, 0x41, 0x10, 0x6A, 0x12]" 62 "0xF7"]
  note t2 = checksum_arithmetic [of "[0x01, 0x00, 0x00, 0x00]" "[65]" example_config
      "''temp_performance_common''" "''Performance name 1''" "Scalar 65" "0x10" ?msg
      "[0xF0, 0x41, 0x10, 0x6A, 0x12]" 0 "0xF7"]
  from t1 b have v0: "verify_checksum ?msg" by blast
  from t1 l have v1: "verify_checksum ([0xF0, 0x41, 0x10, 0x6A, 0x12] @ [0x01, 0x00, 0x00, 0x00] @ [65] @ [62, 0xF7])"
    by (simp add: Let_def)
  from t2 l have v2: "\<not> verify_checksum ([0xF0, 0x41, 0x10, 0x6A, 0x12] @ [0x01, 0x00, 0x00, 0x00] @ [65] @ [0, 0xF7])"
    by (simp add: Let_def)
  from b d f v0 l v1 v2 show ?thesis by blast
qed

section \<open>Dropping a message\<close>

lemma parse_one_bad_header:
  "\<not> validate_roland_header (cfg_common_info cfg) m \<Longrightarrow> parse_one_message cfg lk m = Inr []"
  by (simp add: parse_one_message_def parse_bulk_data_message_def parse_sysex_message_def Let_def)

lemma parse_one_bad_checksum:
  "\<not> verify_checksum m \<Longrightarrow> parse_one_message cfg lk m = Inr []"
  by (simp add: parse_one_message_def parse_bulk_data_message_def parse_sysex_message_def Let_def)

lemma parse_one_short:
  "length m < 10 \<Longrightarrow> parse_one_message cfg lk m = Inr []"
  by (simp add: parse_one_message_def parse_bulk_data_message_def parse_sysex_message_def Let_def)

lemma parse_messages_append:
  "parse_messages cfg lk (xs @ ys) =
     (case parse_messages cfg lk xs of
        Inl e \<Rightarrow> Inl e
      | Inr ps \<Rightarrow> (case parse_messages cfg lk ys of Inl e \<Rightarrow> Inl e | Inr qs \<Rightarrow> Inr (ps @ qs)))"
  by (induction xs) (auto split: sum.splits)

lemma parse_messages_skip:
  assumes "parse_one_message cfg lk m = Inr []"
  shows "parse_messages cfg lk (xs @ m # ys) = parse_messages cfg lk (xs @ ys)"
  using assms by (auto simp add: parse_messages_append split: sum.splits)

lemma parse_messages_filter:
  assumes "\<And>m. \<not> P m \<Longrightarrow> parse_one_message cfg lk m = Inr []"
  shows "parse_messages cfg lk (filter P ms) = parse_messages cfg lk ms"
proof (induction ms)
  case Nil
  then show ?case by simp
next
  case (Cons m ms)
  show ?case
  proof (cases "P m")
    case True
    then show ?thesis using Cons.IH by (simp cong: sum.case_cong)
  next
    case False
    then have "parse_one_message cfg lk m = Inr []" by (rule assms)
    then show ?thesis using False Cons.IH by (simp cong: sum.case_cong split: sum.splits)
  qed
qed

lemma frame_run_fst_prefix:
  "fst (frame_run (ms0, cur, ins) data) = ms0 @ fst (frame_run ([], cur, ins) data)"
  using frame_run_prefix [of ms0 "[]" cur ins data] by (simp add: case_prod_beta)

lemma extract_around_message:
  assumes "0xF0 \<notin> set body" "0xF7 \<notin> set body"
  shows "extract_sysex_messages (pre @ (0xF0 # body @ [0xF7]) @ post)
           = extract_sysex_messages pre @ [0xF0 # body @ [0xF7]] @ extract_sysex_messages post"
proof -
  have "extract_sysex_messages ((0xF0 # body @ [0xF7]) @ post)
          = fst (frame_run ([] @ [0xF0 # body @ [0xF7]], [], False) post)"
    unfolding extract_sysex_messages_def frame_run_append frame_run_message [OF assms] by simp
  also have "\<dots> = [0xF0 # body @ [0xF7]] @ extract_sysex_messages post"
    unfolding extract_sysex_messages_def
    using frame_run_fst_prefix [of "[0xF0 # body @ [0xF7]]" "[]" False post] by simp
  finally have m: "extract_sysex_messages (0xF0 # (body @ [0xF7]) @ post)
          = [0xF0 # body @ [0xF7]] @ extract_sysex_messages post" by simp
  have "extract_sysex_messages (pre @ 0xF0 # ((body @ [0xF7]) @ post))
      = extract_sysex_messages pre @ extract_sysex_messages (0xF0 # ((body @ [0xF7]) @ post))"
    by (rule extract_F0_split)
  then show ?thesis using m by simp
qed

lemma jv_bad_header:
  "take 5 m \<noteq> [0xF0, 0x41, 0x10, 0x6A, 0x12] \<Longrightarrow> jv_parse_sysex_message m = []"
  by (simp add: jv_parse_sysex_message_def)

lemmas example_lookup_simps =
  example_lookup_def build_address_lookup_def example_config_def example_groups_def
  lookup_add_group_def Let_def mk_param_def

lemma example_lookup_built: "build_address_lookup example_config = Inr example_lookup"
  by (simp add: example_lookup_simps)

lemmas sysex_decode_simps =
  parse_one_message_def parse_bulk_data_message_def parse_sysex_message_def
  validate_roland_header_def verify_checksum_def

section \<open>Minimum message length\<close>

text \<open>The two length guards of \<open>sysex_parser.py\<close> are \<open>len(message) < 8\<close> in
  \<open>_verify_checksum\<close> and \<open>len(message) < 10\<close> in \<open>parse_sysex_message\<close> and
  \<open>_parse_bulk_data_message\<close>.  Below 10 bytes neither path produces a parameter.\<close>

lemma below_ten_rejected:
  assumes "length message < 10"
  shows "parse_sysex_message cfg lk message = None
         \<and> parse_bulk_data_message cfg message = Inr []
         \<and> parse_one_message cfg lk message = Inr []"
  using assms
  by (simp add: parse_one_message_def parse_bulk_data_message_def parse_sysex_message_def Let_def)

text \<open>At exactly 10 bytes the guards no longer reject: there is no data byte, the
  checksum test reads the ninth byte, which is also the fourth address byte, against
  the formula over the first three address bytes, and a message outside the expansion
  address space whose four address bytes are in the index yields a parameter with the
  empty value.\<close>

lemma ten_byte_checksum:
  assumes "length m = 10"
  shows "verify_checksum m \<longleftrightarrow> m ! 8 = calculate_checksum [m ! 5, m ! 6, m ! 7]"
proof -
  from assms obtain b0 b1 b2 b3 b4 b5 b6 b7 b8 b9 where
    "m = [b0, b1, b2, b3, b4, b5, b6, b7, b8, b9]"
    by (auto simp add: length_Suc_conv eval_nat_numeral)
  then show ?thesis by (auto simp add: verify_checksum_def calculate_checksum_def)
qed

lemma ten_byte_message_decoded:
  assumes "length m = 10" and "validate_roland_header (cfg_common_info cfg) m"
    and "verify_checksum m" and "m ! 5 \<noteq> 0x11"
    and "lk (drop 5 (take 9 m)) = Some (g, p, pd)"
  shows "parse_one_message cfg lk m
           = Inr [\<lparr>group_name = g, parameter_name = p, pvalue = Bytes [],
                   address = drop 5 (take 9 m), raw_message = m\<rparr>]"
proof -
  have d: "drop 9 (take (length m - 2) m) = []" using assms(1) by simp
  have a: "drop 5 (take 9 m) ! 0 = m ! 5" using assms(1) by simp
  have s: "parse_sysex_message cfg lk m
      = Some \<lparr>group_name = g, parameter_name = p, pvalue = Bytes [],
               address = drop 5 (take 9 m), raw_message = m\<rparr>"
    unfolding parse_sysex_message_def Let_def d using assms by simp
  show ?thesis unfolding parse_one_message_def Let_def s a using assms(4) by simp
qed

text \<open>
  C7.  Every framed message shorter than 11 bytes is to be rejected, and the comment
  of \<open>_verify_checksum\<close> gives the same layout as the minimum: \<open>F0\<close>, four header
  bytes, four address bytes, one data byte, checksum, \<open>F7\<close>.  The guards of the code
  test 8 and 10.  The framed message \<open>F0 41 10 6A 12 00 00 00 00 F7\<close> has 10 bytes and
  no data byte; it passes the header test, the checksum test (its ninth byte, 0, is
  the formula over the address bytes \<open>00 00 00\<close>) and the length guard, and the decoder
  produces a parameter with the empty value from it, alone and inside a buffer.
\<close>

theorem minimum_message_length_failing_input:
  "length [0xF0, 0x41, 0x10, 0x6A, 0x12, 0x00, 0x00, 0x00, 0x00, 0xF7 :: int] < 11
   \<and> extract_sysex_messages [0xF0, 0x41, 0x10, 0x6A, 0x12, 0x00, 0x00, 0x00, 0x00, 0xF7]
       = [[0xF0, 0x41, 0x10, 0x6A, 0x12, 0x00, 0x00, 0x00, 0x00, 0xF7]]
   \<and> verify_checksum [0xF0, 0x41, 0x10, 0x6A, 0x12, 0x00, 0x00, 0x00, 0x00, 0xF7]
   \<and> parse_sysex_message example_config example_lookup
         [0xF0, 0x41, 0x10, 0x6A, 0x12, 0x00, 0x00, 0x00, 0x00, 0xF7]
       = Some \<lparr>group_name = ''system_common'', parameter_name = ''Panel mode'',
               pvalue = Bytes [], address = [0x00, 0x00, 0x00, 0x00],
               raw_message = [0xF0, 0x41, 0x10, 0x6A, 0x12, 0x00, 0x00, 0x00, 0x00, 0xF7]\<rparr>
   \<and> parse_one_message example_config example_lookup
         [0xF0, 0x41, 0x10, 0x6A, 0x12, 0x00, 0x00, 0x00, 0x00, 0xF7]
       = Inr [\<lparr>group_name = ''system_common'', parameter_name = ''Panel mode'',
               pvalue = Bytes [], address = [0x00, 0x00, 0x00, 0x00],
               raw_message = [0xF0, 0x41, 0x10, 0x6A, 0x12, 0x00, 0x00, 0x00, 0x00, 0xF7]\<rparr>]
   \<and> parse_sysex_file example_config example_lookup
         [0xF0, 0x41, 0x10, 0x6A, 0x12, 0x00, 0x00, 0x00, 0x00, 0xF7]
       = Inr [\<lparr>group_name = ''system_common'', parameter_name = ''Panel mode'',
               pvalue = Bytes [], address = [0x00, 0x00, 0x00, 0x00],
               raw_message = [0xF0, 0x41, 0x10, 0x6A, 0x12, 0x00, 0x00, 0x00, 0x00, 0xF7]\<rparr>]"
  by (simp add: example_lookup_simps sysex_decode_simps parse_sysex_file_def
      extract_sysex_messages_def)

section \<open>Device filtering\<close>

text \<open>
  C4 (as amended).  The decoder of \<open>sysex_parser.py\<close> accepts a header exactly when the
  message has at least 6 bytes and its bytes 0, 1, 3 and 4 are \<open>0xF0\<close>, the
  manufacturer, the model and the command; the device id, byte 2, is not compared.
  The decoder of \<open>jv1080_parser.py\<close> requires bytes 0 to 4 to be \<open>F0 41 10 6A 12\<close>.  In
  both, a message that fails the test is dropped without an error and contributes no
  parameter: decoding a list of framed messages gives what decoding only the messages
  that pass the test gives.
\<close>

theorem device_filtering:
  "(validate_roland_header ci m \<longleftrightarrow>
       6 \<le> length m \<and> m ! 0 = 0xF0 \<and> m ! 1 = manufacturer_id ci
       \<and> m ! 3 = model_id ci \<and> m ! 4 = command_id_dt1 ci)
   \<and> validate_roland_header ci (m[2 := d]) = validate_roland_header ci m
   \<and> (\<not> validate_roland_header (cfg_common_info cfg) m \<longrightarrow> parse_one_message cfg lk m = Inr [])
   \<and> parse_messages cfg lk (filter (validate_roland_header (cfg_common_info cfg)) ms)
       = parse_messages cfg lk ms
   \<and> (take 5 m \<noteq> [0xF0, 0x41, 0x10, 0x6A, 0x12] \<longrightarrow> jv_parse_sysex_message m = [])
   \<and> concat (map jv_parse_sysex_message
               (filter (\<lambda>m. take 5 m = [0xF0, 0x41, 0x10, 0x6A, 0x12]) ms))
       = concat (map jv_parse_sysex_message ms)"
proof (intro conjI impI)
  show "validate_roland_header ci m \<longleftrightarrow>
       6 \<le> length m \<and> m ! 0 = 0xF0 \<and> m ! 1 = manufacturer_id ci
       \<and> m ! 3 = model_id ci \<and> m ! 4 = command_id_dt1 ci"
    by (auto simp add: validate_roland_header_def)
next
  show "validate_roland_header ci (m[2 := d]) = validate_roland_header ci m"
    by (simp add: validate_roland_header_def)
next
  assume "\<not> validate_roland_header (cfg_common_info cfg) m"
  then show "parse_one_message cfg lk m = Inr []" by (rule parse_one_bad_header)
next
  show "parse_messages cfg lk (filter (validate_roland_header (cfg_common_info cfg)) ms)
       = parse_messages cfg lk ms"
    by (rule parse_messages_filter) (rule parse_one_bad_header)
next
  assume "take 5 m \<noteq> [0xF0, 0x41, 0x10, 0x6A, 0x12]"
  then show "jv_parse_sysex_message m = []" by (rule jv_bad_header)
next
  show "concat (map jv_parse_sysex_message
               (filter (\<lambda>m. take 5 m = [0xF0, 0x41, 0x10, 0x6A, 0x12]) ms))
       = concat (map jv_parse_sysex_message ms)"
    by (induction ms) (simp_all add: jv_bad_header)
qed

theorem device_filtering_witness:
  "\<not> validate_roland_header (cfg_common_info example_config)
        [0xF0, 0x42, 0x10, 0x6A, 0x12, 0x01, 0x00, 0x00, 0x00, 0x41, 0x3E, 0xF7]
   \<and> parse_one_message example_config Map.empty
        [0xF0, 0x42, 0x10, 0x6A, 0x12, 0x01, 0x00, 0x00, 0x00, 0x41, 0x3E, 0xF7] = Inr []
   \<and> take 5 [0xF0, 0x41, 0x11, 0x6A, 0x12, 0x03, 0x00, 0x00, 0x01, 0x02, 0x03, 0xF7 :: int]
        \<noteq> [0xF0, 0x41, 0x10, 0x6A, 0x12]
   \<and> jv_parse_sysex_message [0xF0, 0x41, 0x11, 0x6A, 0x12, 0x03, 0x00, 0x00, 0x01, 0x02, 0x03, 0xF7] = []"
  using device_filtering [of "cfg_common_info example_config"
          "[0xF0, 0x42, 0x10, 0x6A, 0x12, 0x01, 0x00, 0x00, 0x00, 0x41, 0x3E, 0xF7]" 0
          example_config Map.empty "[]"]
        device_filtering [of "cfg_common_info example_config"
          "[0xF0, 0x41, 0x11, 0x6A, 0x12, 0x03, 0x00, 0x00, 0x01, 0x02, 0x03, 0xF7]" 0
          example_config Map.empty "[]"]
  by (simp add: example_config_def)

text \<open>Two messages that differ in the device id only: both are decoded.\<close>

theorem device_filtering_counterexample:
  "[0xF0, 0x41, 0x10, 0x6A, 0x12, 0x01, 0x00, 0x00, 0x00, 0x41, 0x3E, 0xF7 :: int] ! 2
     \<noteq> [0xF0, 0x41, 0x11, 0x6A, 0x12, 0x01, 0x00, 0x00, 0x01, 0x42, 0x3C, 0xF7] ! 2
   \<and> parse_sysex_file example_config example_lookup
        ([0xF0, 0x41, 0x10, 0x6A, 0x12, 0x01, 0x00, 0x00, 0x00, 0x41, 0x3E, 0xF7]
         @ [0xF0, 0x41, 0x11, 0x6A, 0x12, 0x01, 0x00, 0x00, 0x01, 0x42, 0x3C, 0xF7])
       = Inr [\<lparr>group_name = ''temp_performance_common'', parameter_name = ''Performance name 1'',
               pvalue = Scalar 0x41, address = [0x01, 0x00, 0x00, 0x00],
               raw_message = [0xF0, 0x41, 0x10, 0x6A, 0x12, 0x01, 0x00, 0x00, 0x00, 0x41, 0x3E, 0xF7]\<rparr>,
              \<lparr>group_name = ''temp_performance_common'', parameter_name = ''Performance name 2'',
               pvalue = Scalar 0x42, address = [0x01, 0x00, 0x00, 0x01],
               raw_message = [0xF0, 0x41, 0x11, 0x6A, 0x12, 0x01, 0x00, 0x00, 0x01, 0x42, 0x3C, 0xF7]\<rparr>]"
  by (simp add: example_lookup_simps sysex_decode_simps parse_sysex_file_def
      extract_sysex_messages_def)

section \<open>Checksum mismatch\<close>

text \<open>
  C6 (as amended).  In the decoder of \<open>sysex_parser.py\<close>, a framed message whose
  checksum byte does not satisfy the formula is dropped by both paths without an
  exception and contributes no parameter; the other messages are decoded as if it
  were not there, in a list of framed messages and in a buffer that holds the message
  between any two stretches of bytes.
\<close>

theorem checksum_mismatch_recovery:
  assumes "\<not> verify_checksum m"
  shows "parse_sysex_message cfg lk m = None
         \<and> parse_bulk_data_message cfg m = Inr []
         \<and> parse_one_message cfg lk m = Inr []
         \<and> parse_messages cfg lk (ms1 @ m # ms2) = parse_messages cfg lk (ms1 @ ms2)
         \<and> (\<forall>body. m = 0xF0 # body @ [0xF7] \<and> 0xF0 \<notin> set body \<and> 0xF7 \<notin> set body \<longrightarrow>
               parse_sysex_file cfg lk (pre @ m @ post)
                 = parse_messages cfg lk (extract_sysex_messages pre @ extract_sysex_messages post))"
proof (intro conjI allI impI)
  show "parse_sysex_message cfg lk m = None"
    using assms by (simp add: parse_sysex_message_def)
  show "parse_bulk_data_message cfg m = Inr []"
    using assms by (simp add: parse_bulk_data_message_def)
  show one: "parse_one_message cfg lk m = Inr []"
    using assms by (rule parse_one_bad_checksum)
  show "parse_messages cfg lk (ms1 @ m # ms2) = parse_messages cfg lk (ms1 @ ms2)"
    using one by (rule parse_messages_skip)
next
  fix body
  assume b: "m = 0xF0 # body @ [0xF7] \<and> 0xF0 \<notin> set body \<and> 0xF7 \<notin> set body"
  have one: "parse_one_message cfg lk m = Inr []"
    using assms by (rule parse_one_bad_checksum)
  have "extract_sysex_messages (pre @ m @ post)
          = extract_sysex_messages pre @ m # extract_sysex_messages post"
    using b extract_around_message [of body pre post] by simp
  then show "parse_sysex_file cfg lk (pre @ m @ post)
                 = parse_messages cfg lk (extract_sysex_messages pre @ extract_sysex_messages post)"
    unfolding parse_sysex_file_def using parse_messages_skip [OF one] by simp
qed

theorem checksum_mismatch_recovery_witness:
  "\<not> verify_checksum [0xF0, 0x41, 0x10, 0x6A, 0x12, 0x01, 0x00, 0x00, 0x00, 0x41, 0x00, 0xF7]
   \<and> parse_one_message example_config example_lookup
         [0xF0, 0x41, 0x10, 0x6A, 0x12, 0x01, 0x00, 0x00, 0x00, 0x41, 0x00, 0xF7] = Inr []
   \<and> parse_messages example_config example_lookup
        ([[0xF0, 0x41, 0x10, 0x6A, 0x12, 0x00, 0x00, 0x00, 0x00, 0x01, 0x7F, 0xF7]]
         @ [0xF0, 0x41, 0x10, 0x6A, 0x12, 0x01, 0x00, 0x00, 0x00, 0x41, 0x00, 0xF7]
         # [[0xF0, 0x41, 0x10, 0x6A, 0x12, 0x01, 0x00, 0x00, 0x01, 0x42, 0x3C, 0xF7]])
       = Inr [\<lparr>group_name = ''system_common'', parameter_name = ''Panel mode'',
               pvalue = Scalar 0x01, address = [0x00, 0x00, 0x00, 0x00],
               raw_message = [0xF0, 0x41, 0x10, 0x6A, 0x12, 0x00, 0x00, 0x00, 0x00, 0x01, 0x7F, 0xF7]\<rparr>,
              \<lparr>group_name = ''temp_performance_common'', parameter_name = ''Performance name 2'',
               pvalue = Scalar 0x42, address = [0x01, 0x00, 0x00, 0x01],
               raw_message = [0xF0, 0x41, 0x10, 0x6A, 0x12, 0x01, 0x00, 0x00, 0x01, 0x42, 0x3C, 0xF7]\<rparr>]"
proof -
  have bad: "\<not> verify_checksum [0xF0, 0x41, 0x10, 0x6A, 0x12, 0x01, 0x00, 0x00, 0x00, 0x41, 0x00, 0xF7]"
    by (simp add: verify_checksum_def)
  note t = checksum_mismatch_recovery [OF bad, of example_config example_lookup
      "[[0xF0, 0x41, 0x10, 0x6A, 0x12, 0x00, 0x00, 0x00, 0x00, 0x01, 0x7F, 0xF7]]"
      "[[0xF0, 0x41, 0x10, 0x6A, 0x12, 0x01, 0x00, 0x00, 0x01, 0x42, 0x3C, 0xF7]]" "[]" "[]"]
  have rest: "parse_messages example_config example_lookup
        ([[0xF0, 0x41, 0x10, 0x6A, 0x12, 0x00, 0x00, 0x00, 0x00, 0x01, 0x7F, 0xF7]]
         @ [[0xF0, 0x41, 0x10, 0x6A, 0x12, 0x01, 0x00, 0x00, 0x01, 0x42, 0x3C, 0xF7]])
       = Inr [\<lparr>group_name = ''system_common'', parameter_name = ''Panel mode'',
               pvalue = Scalar 0x01, address = [0x00, 0x00, 0x00, 0x00],
               raw_message = [0xF0, 0x41, 0x10, 0x6A, 0x12, 0x00, 0x00, 0x00, 0x00, 0x01, 0x7F, 0xF7]\<rparr>,
              \<lparr>group_name = ''temp_performance_common'', parameter_name = ''Performance name 2'',
               pvalue = Scalar 0x42, address = [0x01, 0x00, 0x00, 0x01],
               raw_message = [0xF0, 0x41, 0x10, 0x6A, 0x12, 0x01, 0x00, 0x00, 0x01, 0x42, 0x3C, 0xF7]\<rparr>]"
    by (simp add: example_lookup_simps sysex_decode_simps)
  from t bad rest show ?thesis by simp
qed

text \<open>The decoder of \<open>jv1080_parser.py\<close> on a message whose byte at index \<open>-2\<close> is not
  the checksum of its bytes \<open>[5:-2]\<close>: a parameter is produced.\<close>

theorem checksum_mismatch_recovery_counterexample:
  "\<not> verify_checksum [0xF0, 0x41, 0x10, 0x6A, 0x12, 0x03, 0x00, 0x00, 0x01, 0x02, 0x03, 0xF7]
   \<and> jv_parse_sysex_message [0xF0, 0x41, 0x10, 0x6A, 0x12, 0x03, 0x00, 0x00, 0x01, 0x02, 0x03, 0xF7]
       = [\<lparr>jv_group_name = ''TempCommon'', jv_parameter_name = ''param_1'',
           jv_value = JInt 259, jv_address = [0x03, 0x00, 0x00],
           jv_raw_message = [0xF0, 0x41, 0x10, 0x6A, 0x12, 0x03, 0x00, 0x00, 0x01, 0x02, 0x03, 0xF7],
           jv_manufacturer = None, jv_device_id = None, jv_model_id = None, jv_command = None\<rparr>]"
  by (simp add: verify_checksum_def jv_parse_sysex_message_def str_int_def str_nat.simps)

section \<open>Bulk blocks: the selector\<close>

lemma address_bytes:
  assumes "10 \<le> length m"
  shows "drop 5 (take 9 m) ! 0 = m ! 5" "drop 5 (take 9 m) ! 1 = m ! 6"
    "drop 5 (take 9 m) ! 2 = m ! 7"
  using assms by simp_all

text \<open>On a message that passes the three tests and lies in the expansion address
  space, the result is the chain of selector tests.\<close>

lemma bulk_dispatch:
  assumes "validate_roland_header (cfg_common_info cfg) m" "verify_checksum m" "10 \<le> length m"
    and "m ! 5 = 0x11"
  shows "parse_bulk_data_message cfg m =
    (let perf_slot = m ! 6; part_type = m ! 7; data_bytes = drop 9 (take (length m - 2) m)
     in if part_type = 0x00 then Inr (parse_common_bulk_data cfg perf_slot data_bytes)
        else if part_type \<in> set [0x10, 0x12, 0x14, 0x16] then
          Inr (parse_part_bulk_data cfg perf_slot ((part_type - 0x10) div 2 + 1) data_bytes)
        else if part_type = 0x20 then parse_patch_common_bulk_data cfg perf_slot data_bytes
        else if part_type \<in> set [0x22, 0x24, 0x26, 0x28] then
          parse_patch_part_bulk_data cfg perf_slot ((part_type - 0x22) div 2 + 1) data_bytes
        else if part_type = 0x60 then parse_rhythm_common_bulk_data cfg perf_slot data_bytes
        else if 0x24 \<le> part_type \<and> part_type \<le> 0x62 then
          parse_rhythm_part_bulk_data cfg perf_slot (part_type - 0x23) data_bytes
        else Inr [])"
proof -
  have l: "\<not> length m < 10" using assms(3) by simp
  show ?thesis
    unfolding parse_bulk_data_message_def Let_def address_bytes [OF assms(3)]
    using assms(1,2,4) l
    by (simp only: if_True if_False not_True_eq_False not_False_eq_True simp_thms)
qed

lemmas bulk_simps =
  parse_group_bulk_data_def parse_patch_part_bulk_data_def parse_rhythm_part_bulk_data_def
  py_index_def str_int_def str_nat.simps fmt02d_def

text \<open>The block is chosen from the selector byte alone, by the first test of the
  chain that the selector passes; no other byte of the message enters the choice.
  Selector \<open>0x24\<close> passes the patch-part test, which comes before the rhythm-note
  test, so it is decoded as patch part 2 in every message; selector \<open>0x62\<close> reaches
  the rhythm-note branch, where the part number is \<open>selector - 0x23\<close>, which is 63.\<close>

lemma selector_0x24_0x62_resolution:
  assumes "validate_roland_header (cfg_common_info cfg) m" and "verify_checksum m"
    and "10 \<le> length m" and "m ! 5 = 0x11"
  shows "(m ! 7 = 0x24 \<longrightarrow>
            parse_bulk_data_message cfg m
              = parse_patch_part_bulk_data cfg (m ! 6) 2 (drop 9 (take (length m - 2) m)))
       \<and> (m ! 7 = 0x62 \<longrightarrow>
            parse_bulk_data_message cfg m
              = parse_rhythm_part_bulk_data cfg (m ! 6) 63 (drop 9 (take (length m - 2) m)))"
proof (intro conjI impI)
  assume "m ! 7 = 0x24"
  then show "parse_bulk_data_message cfg m
              = parse_patch_part_bulk_data cfg (m ! 6) 2 (drop 9 (take (length m - 2) m))"
    unfolding bulk_dispatch [OF assms] by simp
next
  assume "m ! 7 = 0x62"
  then show "parse_bulk_data_message cfg m
      = parse_rhythm_part_bulk_data cfg (m ! 6) 63 (drop 9 (take (length m - 2) m))"
    unfolding bulk_dispatch [OF assms] by simp
qed

text \<open>
  C3.  In the rhythm bank, selector \<open>0x24\<close> is rhythm note part 2 and selector \<open>0x62\<close>
  is rhythm note part 64; the comments of the rhythm-note branch say the same
  (\<open>0x24 = part 2, 0x62 = part 64\<close>, \<open>0x24 -> 2, 0x25 -> 3\<close>), and so do the scripts
  that generate the catalog (\<open>address_byte = 0x23 + (part_num - 1)\<close>).  The code does
  otherwise on both.  The message addressed \<open>11 09 24 00\<close>, the address of the catalog's
  rhythm note part 2, never reaches the rhythm-note branch: the patch-part test
  \<open>part_type in [0x22, 0x24, 0x26, 0x28]\<close> comes first, and the message is decoded as
  patch part 2.  The message addressed \<open>11 09 62 00\<close>, the address of the catalog's
  rhythm note part 64, reaches the branch, which computes \<open>part_type - 0x23\<close>, and is
  decoded as rhythm note part 63.
\<close>

theorem bulk_selector_dispatch_failing_input:
  "parse_bulk_data_message example_config
       [0xF0, 0x41, 0x10, 0x6A, 0x12, 0x11, 0x09, 0x24, 0x00, 0x01, 0x41, 0xF7]
     = Inr [\<lparr>group_name = ''expansion_patch_part_2_perf_09'', parameter_name = ''Bank MSB'',
             pvalue = Scalar 1, address = [0x11, 0x09, 0x24, 0x00], raw_message = []\<rparr>]
   \<and> parse_rhythm_part_bulk_data example_config 0x09 2 [0x01]
     = Inr [\<lparr>group_name = ''expansion_rhythm_part_2_perf_09'', parameter_name = ''Tone Switch'',
             pvalue = Scalar 1, address = [0x11, 0x09, 0x24, 0x00], raw_message = []\<rparr>]
   \<and> parse_bulk_data_message example_config
       [0xF0, 0x41, 0x10, 0x6A, 0x12, 0x11, 0x09, 0x24, 0x00, 0x01, 0x41, 0xF7]
     \<noteq> parse_rhythm_part_bulk_data example_config 0x09 2 [0x01]
   \<and> parse_bulk_data_message example_config
       [0xF0, 0x41, 0x10, 0x6A, 0x12, 0x11, 0x09, 0x62, 0x00, 0x01, 0x03, 0xF7]
     = Inr [\<lparr>group_name = ''expansion_rhythm_part_63_perf_09'', parameter_name = ''Tone Switch'',
             pvalue = Scalar 1, address = [0x11, 0x09, 0x61, 0x00], raw_message = []\<rparr>]
   \<and> parse_rhythm_part_bulk_data example_config 0x09 64 [0x01]
     = Inr [\<lparr>group_name = ''expansion_rhythm_part_64_perf_09'', parameter_name = ''Tone Switch'',
             pvalue = Scalar 1, address = [0x11, 0x09, 0x62, 0x00], raw_message = []\<rparr>]
   \<and> parse_bulk_data_message example_config
       [0xF0, 0x41, 0x10, 0x6A, 0x12, 0x11, 0x09, 0x62, 0x00, 0x01, 0x03, 0xF7]
     \<noteq> parse_rhythm_part_bulk_data example_config 0x09 64 [0x01]"
  by (simp add: sysex_decode_simps bulk_simps example_config_def example_groups_def mk_param_def)

section \<open>Bulk blocks: signed fields\<close>

lemma part_nth:
  assumes "i < length (get_part_parameter_definitions cfg part_num)" "i < length data_bytes"
  shows "parse_part_bulk_data cfg perf_slot part_num data_bytes ! i
     = \<lparr>group_name = ''expansion_performance_part_'' @ str_int part_num @ ''_perf_''
                       @ fmt02d perf_slot,
        parameter_name = fst (get_part_parameter_definitions cfg part_num ! i),
        pvalue = Scalar (signed_conversion (snd (get_part_parameter_definitions cfg part_num ! i))
                          (data_bytes ! i)),
        address = [0x11, perf_slot, 0x10 + (part_num - 1) * 2, int i], raw_message = []\<rparr>"
  using assms unfolding parse_part_bulk_data_def Let_def
  by (simp add: nth_enumerate_eq case_prod_beta)

lemma common_nth:
  assumes "12 \<le> length data_bytes" "i < length (get_common_parameter_definitions cfg)"
    "12 + i < length data_bytes"
  shows "parse_common_bulk_data cfg perf_slot data_bytes ! Suc i
     = \<lparr>group_name = ''expansion_performance_common_perf_'' @ fmt02d perf_slot,
        parameter_name = fst (get_common_parameter_definitions cfg ! i),
        pvalue = Scalar (signed_conversion (snd (get_common_parameter_definitions cfg ! i))
                          (data_bytes ! (12 + i))),
        address = [0x11, perf_slot, 0x00, 0x0C + int i], raw_message = []\<rparr>"
  using assms unfolding parse_common_bulk_data_def Let_def
  by (simp add: nth_enumerate_eq case_prod_beta)

lemmas part_simps =
  parse_part_bulk_data_def parse_common_bulk_data_def get_part_parameter_definitions_def
  get_common_parameter_definitions_def definitions_dict_def param_info_of_def
  signed_conversion_def example_config_def example_toplevel_groups_def mk_param_def
  mk_signed_param_def str_int_def str_nat.simps fmt02d_def enumerate_eq_zip

text \<open>
  C10 (as amended).  For every field that \<open>_parse_part_bulk_data\<close> or
  \<open>_parse_common_bulk_data\<close> extracts from a bulk block, the value emitted is the raw
  stored byte, except for a field whose definition has type \<open>signed\<close> and whose byte
  is above 63: there the codec emits the byte minus 128.  So a field of type
  \<open>signed\<close> passes through raw for the bytes 0 to 63 only; for 64 to 127 the codec
  converts the sign (by 128, not by the center 64).
\<close>

theorem signed_fields_conversion:
  "(i < length (get_part_parameter_definitions cfg part_num) \<and> i < length data_bytes \<longrightarrow>
      (let info = snd (get_part_parameter_definitions cfg part_num ! i); raw = data_bytes ! i
       in pvalue (parse_part_bulk_data cfg perf_slot part_num data_bytes ! i)
            = Scalar (if pi_type info = ''signed'' \<and> raw > 63 then raw - 128 else raw)))
   \<and> (12 \<le> length data_bytes \<and> i < length (get_common_parameter_definitions cfg)
        \<and> 12 + i < length data_bytes \<longrightarrow>
      (let info = snd (get_common_parameter_definitions cfg ! i); raw = data_bytes ! (12 + i)
       in pvalue (parse_common_bulk_data cfg perf_slot data_bytes ! Suc i)
            = Scalar (if pi_type info = ''signed'' \<and> raw > 63 then raw - 128 else raw)))"
proof (intro conjI impI)
  assume "i < length (get_part_parameter_definitions cfg part_num) \<and> i < length data_bytes"
  then show "let info = snd (get_part_parameter_definitions cfg part_num ! i); raw = data_bytes ! i
       in pvalue (parse_part_bulk_data cfg perf_slot part_num data_bytes ! i)
            = Scalar (if pi_type info = ''signed'' \<and> raw > 63 then raw - 128 else raw)"
    by (simp add: part_nth signed_conversion_def Let_def)
next
  assume "12 \<le> length data_bytes \<and> i < length (get_common_parameter_definitions cfg)
        \<and> 12 + i < length data_bytes"
  then show "let info = snd (get_common_parameter_definitions cfg ! i); raw = data_bytes ! (12 + i)
       in pvalue (parse_common_bulk_data cfg perf_slot data_bytes ! Suc i)
            = Scalar (if pi_type info = ''signed'' \<and> raw > 63 then raw - 128 else raw)"
    by (simp add: common_nth signed_conversion_def Let_def)
qed

theorem signed_fields_conversion_witness:
  "1 < length (get_part_parameter_definitions example_config 1) \<and> 1 < length [5, 100 :: int]
   \<and> pvalue (parse_part_bulk_data example_config 0 1 [5, 100] ! 1) = Scalar (- 28)
   \<and> 12 \<le> length [65, 66, 67, 68, 69, 70, 71, 72, 73, 74, 75, 76, 3, 40 :: int]
   \<and> 1 < length (get_common_parameter_definitions example_config)
   \<and> 12 + 1 < length [65, 66, 67, 68, 69, 70, 71, 72, 73, 74, 75, 76, 3, 40 :: int]
   \<and> pvalue (parse_common_bulk_data example_config 0
               [65, 66, 67, 68, 69, 70, 71, 72, 73, 74, 75, 76, 3, 40] ! Suc 1) = Scalar 40"
proof -
  have p: "get_part_parameter_definitions example_config 1
      = [(''MIDI channel'', \<lparr>pi_min = 0, pi_max = 15, pi_type = ''unsigned''\<rparr>),
         (''Coarse tune'', \<lparr>pi_min = 0, pi_max = 127, pi_type = ''signed''\<rparr>)]"
    by (simp add: part_simps)
  have c: "get_common_parameter_definitions example_config
      = [(''EFX:Type'', \<lparr>pi_min = 0, pi_max = 39, pi_type = ''unsigned''\<rparr>),
         (''Key transpose'', \<lparr>pi_min = 0, pi_max = 127, pi_type = ''signed''\<rparr>)]"
    by (simp add: part_simps)
  note t1 = signed_fields_conversion [of 1 example_config 1 "[5, 100]" 0]
  note t2 = signed_fields_conversion [of 1 example_config 1
              "[65, 66, 67, 68, 69, 70, 71, 72, 73, 74, 75, 76, 3, 40]" 0]
  from t1 have "pvalue (parse_part_bulk_data example_config 0 1 [5, 100] ! 1) = Scalar (- 28)"
    by (simp add: p Let_def)
  moreover from t2 have "pvalue (parse_common_bulk_data example_config 0
               [65, 66, 67, 68, 69, 70, 71, 72, 73, 74, 75, 76, 3, 40] ! Suc 1) = Scalar 40"
    by (simp add: c Let_def)
  ultimately show ?thesis by (simp add: p c)
qed

text \<open>A part block with the bytes 5 and 100: the field of type \<open>signed\<close> is emitted as
  \<open>-28\<close>, not as the stored 100.\<close>

theorem signed_fields_conversion_counterexample:
  "parse_bulk_data_message example_config
       [0xF0, 0x41, 0x10, 0x6A, 0x12, 0x11, 0x00, 0x10, 0x00, 0x05, 0x64, 0x76, 0xF7]
     = Inr [\<lparr>group_name = ''expansion_performance_part_1_perf_00'',
             parameter_name = ''MIDI channel'', pvalue = Scalar 5,
             address = [0x11, 0x00, 0x10, 0x00], raw_message = []\<rparr>,
            \<lparr>group_name = ''expansion_performance_part_1_perf_00'',
             parameter_name = ''Coarse tune'', pvalue = Scalar (- 28),
             address = [0x11, 0x00, 0x10, 0x01], raw_message = []\<rparr>]"
  by (simp add: sysex_decode_simps part_simps)

section \<open>Assembler lemmas\<close>


lemma first_occ_snoc: "first_occ (xs @ [k]) = (if k \<in> set xs then first_occ xs else first_occ xs @ [k])"
  by (simp add: first_occ_def)

lemma set_first_occ [simp]: "set (first_occ xs) = set xs" by (simp add: first_occ_def)
lemma distinct_first_occ [simp]: "distinct (first_occ xs)" by (simp add: first_occ_def)

lemma group_loop_snoc:
  "group_loop patches (ps @ [p]) =
     (case group_loop patches ps of Inl e \<Rightarrow> Inl e | Inr r \<Rightarrow> group_step r p)"
  by (induction ps arbitrary: patches) (auto split: sum.splits)

lemma absorb_params: "ps_parameters (absorb p pr) = ps_parameters pr @ [p]"
  by (simp add: absorb_def Let_def)

lemma params_of_map_entry:
  "params_of (AList.map_entry k (absorb p) al) = AList.map_entry k (\<lambda>xs. xs @ [p]) (params_of al)"
  by (induction al) (auto simp add: params_of_def absorb_params)

lemma map_entry_tabulate:
  assumes "distinct keys"
  shows "AList.map_entry k f (map (\<lambda>k'. (k', g k')) keys)
           = map (\<lambda>k'. (k', if k' = k then f (g k') else g k')) keys"
  using assms by (induction keys) auto

lemma new_preset_params: "ps_parameters (new_preset p) = []" by (simp add: new_preset_def)

lemma group_step_ok:
  assumes "2 \<le> length (jv_address p)"
  shows "\<exists>r. group_step patches p = Inr r \<and>
     params_of r = AList.map_entry (slot_of p) (\<lambda>xs. xs @ [p])
        (if slot_of p \<in> fst ` set (params_of patches) then params_of patches else params_of patches @ [(slot_of p, [])])"
proof -
  have i: "py_index (jv_address p) 1 = Inr (slot_of p)"
    using assms by (simp add: py_index_def slot_of_def)
  have k: "fst ` set (params_of patches) = fst ` set patches"
    by (force simp add: params_of_def)
  have n: "(map_of patches (slot_of p) = None) = (slot_of p \<notin> fst ` set patches)"
    by (simp add: map_of_eq_None_iff)
  show ?thesis
    unfolding group_step_def i Let_def
    by (simp add: n k params_of_map_entry) (simp add: params_of_def new_preset_params)
qed

lemma group_loop_params:
  assumes "\<forall>p\<in>set ps. 2 \<le> length (jv_address p)"
  shows "\<exists>r. group_loop [] ps = Inr r \<and>
     params_of r = map (\<lambda>k. (k, filter (\<lambda>p. slot_of p = k) ps)) (first_occ (map slot_of ps))"
  using assms
proof (induction ps rule: rev_induct)
  case Nil
  then show ?case by (simp add: params_of_def first_occ_def)
next
  case (snoc p ps)
  then obtain r where r: "group_loop [] ps = Inr r"
    and pr: "params_of r = map (\<lambda>k. (k, filter (\<lambda>p. slot_of p = k) ps)) (first_occ (map slot_of ps))"
    by auto
  have l: "2 \<le> length (jv_address p)" using snoc.prems by simp
  from group_step_ok [OF l, of r] obtain r' where r': "group_step r p = Inr r'"
    and pr': "params_of r' = AList.map_entry (slot_of p) (\<lambda>xs. xs @ [p])
        (if slot_of p \<in> fst ` set (params_of r) then params_of r else params_of r @ [(slot_of p, [])])"
    by blast
  have keys: "fst ` set (params_of r) = set (map slot_of ps)"
    unfolding pr by (force simp add: image_iff)
  let ?g = "\<lambda>k. filter (\<lambda>p. slot_of p = k) ps"
  have tab: "(if slot_of p \<in> fst ` set (params_of r) then params_of r else params_of r @ [(slot_of p, [])])
     = map (\<lambda>k. (k, ?g k)) (first_occ (map slot_of (ps @ [p])))"
  proof (cases "slot_of p \<in> set (map slot_of ps)")
    case True
    then have "slot_of p \<in> fst ` set (params_of r)" using keys by simp
    then show ?thesis using True by (simp add: pr first_occ_snoc)
  next
    case False
    then have "\<forall>x\<in>set ps. slot_of x \<noteq> slot_of p" by (metis image_eqI list.set_map)
    then have e: "?g (slot_of p) = []" by (simp add: filter_empty_conv)
    from False have "slot_of p \<notin> fst ` set (params_of r)" using keys by simp
    then show ?thesis using False e by (simp add: pr first_occ_snoc)
  qed
  have "params_of r' = map (\<lambda>k. (k, filter (\<lambda>q. slot_of q = k) (ps @ [p]))) (first_occ (map slot_of (ps @ [p])))"
    unfolding pr' tab
    by (subst map_entry_tabulate) (auto)
  then show ?case using r r' by (simp add: group_loop_snoc)
qed


lemma assign_bank_select_fields:
  assumes "assign_bank_select q = Inr r"
  shows "ps_parameters r = ps_parameters q" "ps_name r = ps_name q"
    "bank_select (last_common_value ''bank'' (ps_parameters q))
                 (last_common_value ''patch_number'' (ps_parameters q))
       = Inr (ps_msb r, ps_lsb r, ps_pc r)"
  using assms unfolding assign_bank_select_def by (auto split: sum.splits prod.splits)

lemma assign_loop_rel:
  "assign_loop xs = Inr ys \<Longrightarrow> list_all2 (\<lambda>q r. assign_bank_select q = Inr r) xs ys"
  by (induction xs arbitrary: ys) (auto split: sum.splits)

lemma assign_loop_total:
  "\<forall>q\<in>set xs. \<exists>r. assign_bank_select q = Inr r \<Longrightarrow> \<exists>ys. assign_loop xs = Inr ys"
  by (induction xs) (auto split: sum.splits)

lemma last_common_value_mem:
  assumes "last_common_value pname params = Some v"
  shows "\<exists>p\<in>set params. jv_group_name p = ''Common'' \<and> jv_parameter_name p = pname \<and> jv_value p = v"
proof -
  let ?f = "filter (\<lambda>p. jv_group_name p = ''Common'' \<and> jv_parameter_name p = pname) params"
  from assms have ne: "?f \<noteq> []" and v: "v = jv_value (last ?f)"
    unfolding last_common_value_def by (auto split: list.splits)
  from ne have "last ?f \<in> set ?f" by (rule last_in_set)
  then show ?thesis using v by auto
qed

lemma last_common_value_none:
  "\<forall>p\<in>set params. jv_group_name p \<noteq> ''Common'' \<Longrightarrow> last_common_value pname params = None"
  unfolding last_common_value_def by (auto split: list.splits simp add: filter_empty_conv)

lemma assign_bank_select_total:
  assumes "\<forall>p\<in>set (ps_parameters q). jv_group_name p = ''Common'' \<and> jv_parameter_name p = ''bank''
             \<longrightarrow> (\<exists>n. jv_value p = JInt n)"
  shows "\<exists>r. assign_bank_select q = Inr r"
proof (cases "last_common_value ''bank'' (ps_parameters q)")
  case None
  then show ?thesis by (simp add: assign_bank_select_def bank_select_def)
next
  case (Some v)
  from last_common_value_mem [OF Some] assms obtain n where "v = JInt n" by blast
  then show ?thesis using Some
    by (cases "last_common_value ''patch_number'' (ps_parameters q)")
       (simp_all add: assign_bank_select_def bank_select_def)
qed


lemma params_of_subset:
  assumes "params_of r = map (\<lambda>k. (k, filter (\<lambda>p. slot_of p = k) ps)) keys"
    and "pr \<in> set (map snd r)"
  shows "set (ps_parameters pr) \<subseteq> set ps"
proof -
  from assms(2) have "ps_parameters pr \<in> set (map snd (params_of r))"
    by (force simp add: params_of_def)
  then show ?thesis unfolding assms(1) by auto
qed

lemma map_snd_params_of: "map snd (params_of r) = map ps_parameters (map snd r)"
  by (simp add: params_of_def case_prod_beta)

text \<open>The whole function, on a stream the decoder can produce.\<close>
lemma group_parameters_char:
  assumes a: "\<forall>p\<in>set ps. 2 \<le> length (jv_address p)"
    and b: "\<forall>p\<in>set ps. jv_group_name p = ''Common'' \<and> jv_parameter_name p = ''bank''
             \<longrightarrow> (\<exists>n. jv_value p = JInt n)"
  shows "\<exists>presets. group_parameters_into_patches ps = Inr presets
     \<and> map ps_parameters presets
         = map (\<lambda>k. filter (\<lambda>p. slot_of p = k) ps) (first_occ (map slot_of ps))
     \<and> (\<forall>pr\<in>set presets.
           bank_select (last_common_value ''bank'' (ps_parameters pr))
                       (last_common_value ''patch_number'' (ps_parameters pr))
             = Inr (ps_msb pr, ps_lsb pr, ps_pc pr))"
proof -
  from group_loop_params [OF a] obtain r where r: "group_loop [] ps = Inr r"
    and pr: "params_of r = map (\<lambda>k. (k, filter (\<lambda>p. slot_of p = k) ps)) (first_occ (map slot_of ps))"
    by blast
  have "\<forall>q\<in>set (map snd r). \<exists>r'. assign_bank_select q = Inr r'"
  proof
    fix q assume "q \<in> set (map snd r)"
    then have "set (ps_parameters q) \<subseteq> set ps" by (rule params_of_subset [OF pr])
    with b show "\<exists>r'. assign_bank_select q = Inr r'"
      by (intro assign_bank_select_total) blast
  qed
  then obtain ys where ys: "assign_loop (map snd r) = Inr ys"
    using assign_loop_total by blast
  then have rel: "list_all2 (\<lambda>q r. assign_bank_select q = Inr r) (map snd r) ys"
    by (rule assign_loop_rel)
  have res: "group_parameters_into_patches ps = Inr ys"
    by (simp add: group_parameters_into_patches_def r ys)
  have "list_all2 (\<lambda>q r. ps_parameters r = ps_parameters q) (map snd r) ys"
    using rel by (rule list_all2_mono) (simp add: assign_bank_select_fields)
  then have "map ps_parameters ys = map ps_parameters (map snd r)"
    by (induction rule: list_all2_induct) auto
  also have "\<dots> = map snd (params_of r)" by (simp add: map_snd_params_of)
  also have "\<dots> = map (\<lambda>k. filter (\<lambda>p. slot_of p = k) ps) (first_occ (map slot_of ps))"
    unfolding pr by (simp add: comp_def)
  finally have params: "map ps_parameters ys
      = map (\<lambda>k. filter (\<lambda>p. slot_of p = k) ps) (first_occ (map slot_of ps))" .
  have "\<forall>y\<in>set ys. bank_select (last_common_value ''bank'' (ps_parameters y))
                       (last_common_value ''patch_number'' (ps_parameters y))
             = Inr (ps_msb y, ps_lsb y, ps_pc y)"
  proof
    fix y assume "y \<in> set ys"
    with rel obtain q where q: "assign_bank_select q = Inr y"
      by (auto simp add: list_all2_conv_all_nth in_set_conv_nth)
    from assign_bank_select_fields(1,3) [OF q]
    show "bank_select (last_common_value ''bank'' (ps_parameters y))
                       (last_common_value ''patch_number'' (ps_parameters y))
             = Inr (ps_msb y, ps_lsb y, ps_pc y)" by simp
  qed
  with res params show ?thesis by blast
qed


lemma map_entry_fresh:
  "k \<notin> fst ` set al \<Longrightarrow> AList.map_entry k f (al @ [(k, v)]) = al @ [(k, f v)]"
  by (induction al) auto

lemma map_entry_mem:
  "(k', v) \<in> set (AList.map_entry k f al) \<Longrightarrow>
     (k', v) \<in> set al \<or> (\<exists>v0. (k, v0) \<in> set al \<and> v = f v0)"
  by (induction al) (auto split: if_splits)

lemma group_step_cases:
  assumes "2 \<le> length (jv_address p)"
  shows "group_step patches p =
     Inr (if slot_of p \<in> fst ` set patches
          then AList.map_entry (slot_of p) (absorb p) patches
          else patches @ [(slot_of p, absorb p (new_preset p))])"
proof -
  have i: "py_index (jv_address p) 1 = Inr (slot_of p)"
    using assms by (simp add: py_index_def slot_of_def)
  have n: "(map_of patches (slot_of p) = None) = (slot_of p \<notin> fst ` set patches)"
    by (simp add: map_of_eq_None_iff)
  show ?thesis
    unfolding group_step_def i Let_def by (simp add: n map_entry_fresh)
qed

lemma absorb_name:
  "ps_name (absorb p pr) =
     (if jv_group_name p = ''Common'' \<and> jv_parameter_name p = ''patch_name''
      then py_str (jv_value p) else ps_name pr)"
  by (simp add: absorb_def Let_def)

lemma name_inv_absorb: "name_inv pr \<Longrightarrow> name_inv (absorb p pr)"
  unfolding name_inv_def absorb_params absorb_name by simp

lemma name_inv_new: "name_inv (absorb p (new_preset p))"
  unfolding name_inv_def absorb_params absorb_name by (simp add: new_preset_def)

lemma group_step_name_inv:
  assumes "2 \<le> length (jv_address p)" and "\<forall>e\<in>set patches. name_inv (snd e)"
    and "group_step patches p = Inr r"
  shows "\<forall>e\<in>set r. name_inv (snd e)"
proof (cases "slot_of p \<in> fst ` set patches")
  case True
  then have r: "r = AList.map_entry (slot_of p) (absorb p) patches"
    using assms(3) group_step_cases [OF assms(1), of patches] by simp
  show ?thesis
  proof
    fix e assume "e \<in> set r"
    then have "(fst e, snd e) \<in> set (AList.map_entry (slot_of p) (absorb p) patches)"
      unfolding r by simp
    from map_entry_mem [OF this]
    have "(fst e, snd e) \<in> set patches \<or> (\<exists>v0. (slot_of p, v0) \<in> set patches \<and> snd e = absorb p v0)" .
    then show "name_inv (snd e)"
    proof
      assume "(fst e, snd e) \<in> set patches"
      with assms(2) show ?thesis by (metis snd_conv)
    next
      assume "\<exists>v0. (slot_of p, v0) \<in> set patches \<and> snd e = absorb p v0"
      then obtain v0 where v: "(slot_of p, v0) \<in> set patches" and e: "snd e = absorb p v0" by blast
      from assms(2) v have "name_inv v0" by (metis snd_conv)
      then show ?thesis unfolding e by (rule name_inv_absorb)
    qed
  qed
next
  case False
  then have r: "r = patches @ [(slot_of p, absorb p (new_preset p))]"
    using assms(3) group_step_cases [OF assms(1), of patches] by simp
  show ?thesis unfolding r using assms(2) name_inv_new by auto
qed

lemma group_loop_name_inv:
  assumes "\<forall>p\<in>set ps. 2 \<le> length (jv_address p)" and "\<forall>e\<in>set patches. name_inv (snd e)"
    and "group_loop patches ps = Inr r"
  shows "\<forall>e\<in>set r. name_inv (snd e)"
  using assms
proof (induction ps arbitrary: patches)
  case Nil
  then show ?case by simp
next
  case (Cons p ps)
  from Cons.prems(1) have l: "2 \<le> length (jv_address p)" by simp
  from group_step_cases [OF l, of patches] obtain r1 where s: "group_step patches p = Inr r1" by blast
  from group_step_name_inv [OF l Cons.prems(2) s] have i: "\<forall>e\<in>set r1. name_inv (snd e)" .
  from Cons.prems(3) s have "group_loop r1 ps = Inr r" by simp
  with Cons.IH [OF _ i] Cons.prems(1) show ?case by simp
qed

lemma no_common_preset:
  assumes "assign_bank_select q = Inr y" and "name_inv q"
    and "\<forall>p\<in>set (ps_parameters q). jv_group_name p \<noteq> ''Common''"
  shows "ps_name y = ''Unknown'' \<and> ps_msb y = None \<and> ps_lsb y = None \<and> ps_pc y = None"
proof -
  have n: "ps_name q = ''Unknown''" using assms(2,3) by (auto simp add: name_inv_def)
  have b: "last_common_value ''bank'' (ps_parameters q) = None"
    and c: "last_common_value ''patch_number'' (ps_parameters q) = None"
    using assms(3) by (simp_all add: last_common_value_none)
  have "bank_select None None = Inr (None, None, None)" by (simp add: bank_select_def)
  then have "y = q\<lparr>ps_msb := None, ps_lsb := None, ps_pc := None\<rparr>"
    using assms(1) unfolding assign_bank_select_def b c by simp
  then show ?thesis using n by simp
qed

lemma list_all2_right_mem:
  "list_all2 P xs ys \<Longrightarrow> y \<in> set ys \<Longrightarrow> \<exists>x\<in>set xs. P x y"
  by (induction rule: list_all2_induct) auto

lemma group_parameters_names:
  assumes a: "\<forall>p\<in>set ps. 2 \<le> length (jv_address p)"
    and r: "group_parameters_into_patches ps = Inr presets"
    and m: "pr \<in> set presets"
    and n: "\<forall>p\<in>set (ps_parameters pr). jv_group_name p \<noteq> ''Common''"
  shows "ps_name pr = ''Unknown'' \<and> ps_msb pr = None \<and> ps_lsb pr = None \<and> ps_pc pr = None"
proof -
  from group_loop_params [OF a] obtain g where g: "group_loop [] ps = Inr g" by blast
  have inv: "\<forall>e\<in>set g. name_inv (snd e)"
    by (rule group_loop_name_inv [OF a _ g]) simp
  from r g have "assign_loop (map snd g) = Inr presets"
    by (simp add: group_parameters_into_patches_def)
  then have "list_all2 (\<lambda>q r. assign_bank_select q = Inr r) (map snd g) presets"
    by (rule assign_loop_rel)
  from list_all2_right_mem [OF this m]
  obtain q where q: "q \<in> set (map snd g)" and s: "assign_bank_select q = Inr pr"
    by blast
  from q inv have i: "name_inv q" by auto
  from assign_bank_select_fields(1) [OF s] n
  have "\<forall>p\<in>set (ps_parameters q). jv_group_name p \<noteq> ''Common''" by simp
  with s i show ?thesis by (rule no_common_preset)
qed

lemmas assembler_simps =
  group_parameters_into_patches_def group_step_def py_index_def new_preset_def absorb_def
  Let_def assign_bank_select_def bank_select_def last_common_value_def mk_jv_def

section \<open>The streams the decoder produces\<close>

lemma common_bank_is_int:
  "\<forall>e\<in>set common_params. fst e = ''bank'' \<longrightarrow> snd (snd (snd e)) = TInt"
  by (simp add: common_params_def)

lemma block_field_fields:
  "jv_address (block_field g strip payload addr raw e) = addr"
  "jv_group_name (block_field g strip payload addr raw e) = g"
  "jv_parameter_name (block_field g strip payload addr raw e) = fst e"
  by (simp_all add: block_field_def split: prod.splits)

lemma block_field_int:
  "snd (snd (snd e)) = TInt \<Longrightarrow> \<exists>n. jv_value (block_field g strip payload addr raw e) = JInt n"
  by (auto simp add: block_field_def split: prod.splits)

lemma parse_common_block_wf:
  assumes "p \<in> set (parse_common_block payload addr raw)"
  shows "jv_address p = addr \<and> (jv_parameter_name p = ''bank'' \<longrightarrow> (\<exists>n. jv_value p = JInt n))"
proof -
  from assms obtain e where e: "e \<in> set common_params"
    and p: "p = block_field ''Common'' (strip_chars [CHR 0x00, CHR '' '']) payload addr raw e"
    unfolding parse_common_block_def by (auto split: if_splits)
  show ?thesis
    unfolding p block_field_fields using common_bank_is_int e block_field_int by blast
qed

lemma parse_tone_block_wf:
  assumes "p \<in> set (parse_tone_block payload addr raw)"
  shows "jv_address p = addr"
  using assms unfolding parse_tone_block_def by (auto split: if_splits simp add: block_field_fields)

lemma jv_parse_sysex_message_wf:
  assumes "p \<in> set (jv_parse_sysex_message m)"
  shows "length (jv_address p) = 3
       \<and> (jv_group_name p = ''Common'' \<and> jv_parameter_name p = ''bank'' \<longrightarrow> (\<exists>n. jv_value p = JInt n))"
proof -
  let ?addr = "[m ! 5, m ! 6, m ! 7]"
  let ?payload = "drop 8 (take (length m - 1) m)"
  consider (c) "p \<in> set (parse_common_block ?payload ?addr m)"
    | (t) q where "q \<in> set (parse_tone_block ?payload ?addr m)"
        "p = q\<lparr>jv_group_name := ''Tone'' @ str_int ((m ! 7 - 0x10) div 2 + 1)\<rparr>"
    | (x) "jv_address p = ?addr" "jv_group_name p = ''TempCommon'' \<or> (\<exists>s. jv_group_name p = ''TempTone'' @ s)"
    using assms unfolding jv_parse_sysex_message_def Let_def
    by (auto split: if_splits)
  then show ?thesis
  proof cases
    case c
    from parse_common_block_wf [OF c] show ?thesis by simp
  next
    case t
    from parse_tone_block_wf [OF t(1)] show ?thesis unfolding t(2) by simp
  next
    case x
    then show ?thesis by auto
  qed
qed

lemma jv_parse_sysex_file_wf:
  assumes "p \<in> set (jv_parse_sysex_file data)"
  shows "2 \<le> length (jv_address p)
       \<and> (jv_group_name p = ''Common'' \<and> jv_parameter_name p = ''bank'' \<longrightarrow> (\<exists>n. jv_value p = JInt n))"
proof -
  from assms obtain m where "p \<in> set (jv_parse_sysex_message m)"
    unfolding jv_parse_sysex_file_def by auto
  from jv_parse_sysex_message_wf [OF this] show ?thesis by simp
qed

text \<open>Everything \<open>jv_parse_sysex_file\<close> returns is a stream the assembler accepts:
  on the decoder's output the assembler always returns.\<close>

lemma assembler_returns_on_decoded:
  "\<exists>presets. group_parameters_into_patches (jv_parse_sysex_file data) = Inr presets
     \<and> map ps_parameters presets
         = map (\<lambda>k. filter (\<lambda>p. slot_of p = k) (jv_parse_sysex_file data))
               (first_occ (map slot_of (jv_parse_sysex_file data)))"
proof -
  have a: "\<forall>p\<in>set (jv_parse_sysex_file data). 2 \<le> length (jv_address p)"
    using jv_parse_sysex_file_wf by blast
  have b: "\<forall>p\<in>set (jv_parse_sysex_file data). jv_group_name p = ''Common'' \<and> jv_parameter_name p = ''bank''
             \<longrightarrow> (\<exists>n. jv_value p = JInt n)"
    using jv_parse_sysex_file_wf by blast
  from group_parameters_char [OF a b] show ?thesis by blast
qed

section \<open>Slots and presets\<close>

text \<open>
  C9 (as amended).  For every parameter stream the decoder can produce (every address
  has at least two bytes, every \<open>bank\<close> value of a common block is an int), the
  assembler returns one preset for each slot index that occurs in the stream, in the
  order of first occurrence, and the preset of a slot holds all parameters of that
  slot in stream order, whether or not a common-block parameter was decoded for the
  slot.  The part and tone parameters of a slot without any common-block parameter are
  kept: that slot is in the list, as a preset named \<open>Unknown\<close> with no bank-select
  values.
\<close>

theorem slots_become_presets:
  assumes "\<forall>p\<in>set ps. 2 \<le> length (jv_address p)"
    and "\<forall>p\<in>set ps. jv_group_name p = ''Common'' \<and> jv_parameter_name p = ''bank''
           \<longrightarrow> (\<exists>n. jv_value p = JInt n)"
  shows "\<exists>presets. group_parameters_into_patches ps = Inr presets
     \<and> map ps_parameters presets
         = map (\<lambda>k. filter (\<lambda>p. slot_of p = k) ps) (first_occ (map slot_of ps))
     \<and> (\<forall>pr\<in>set presets.
           (\<forall>p\<in>set (ps_parameters pr). jv_group_name p \<noteq> ''Common'') \<longrightarrow>
             ps_name pr = ''Unknown'' \<and> ps_msb pr = None \<and> ps_lsb pr = None
             \<and> ps_pc pr = None)"
proof -
  from group_parameters_char [OF assms] obtain presets where
    r: "group_parameters_into_patches ps = Inr presets"
    and p: "map ps_parameters presets
         = map (\<lambda>k. filter (\<lambda>p. slot_of p = k) ps) (first_occ (map slot_of ps))"
    by blast
  have "\<forall>pr\<in>set presets.
           (\<forall>p\<in>set (ps_parameters pr). jv_group_name p \<noteq> ''Common'') \<longrightarrow>
             ps_name pr = ''Unknown'' \<and> ps_msb pr = None \<and> ps_lsb pr = None
             \<and> ps_pc pr = None"
    using group_parameters_names [OF assms(1) r] by blast
  with r p show ?thesis by blast
qed

theorem slots_become_presets_witness:
  "\<exists>presets. group_parameters_into_patches
          [mk_jv ''Common'' ''patch_name'' (JStr ''Strings'') [0x11, 0, 0x00],
           mk_jv ''Tone1'' ''pan'' (JInt 64) [0x11, 5, 0x10]] = Inr presets
        \<and> map ps_parameters presets
            = [[mk_jv ''Common'' ''patch_name'' (JStr ''Strings'') [0x11, 0, 0x00]],
               [mk_jv ''Tone1'' ''pan'' (JInt 64) [0x11, 5, 0x10]]]"
proof -
  let ?ps = "[mk_jv ''Common'' ''patch_name'' (JStr ''Strings'') [0x11, 0, 0x00],
              mk_jv ''Tone1'' ''pan'' (JInt 64) [0x11, 5, 0x10]]"
  have h1: "\<forall>p\<in>set ?ps. 2 \<le> length (jv_address p)" by (simp add: mk_jv_def)
  have h2: "\<forall>p\<in>set ?ps. jv_group_name p = ''Common'' \<and> jv_parameter_name p = ''bank''
             \<longrightarrow> (\<exists>n. jv_value p = JInt n)" by (simp add: mk_jv_def)
  from slots_become_presets [OF h1 h2] obtain presets where
    r: "group_parameters_into_patches ?ps = Inr presets"
    and p: "map ps_parameters presets
         = map (\<lambda>k. filter (\<lambda>p. slot_of p = k) ?ps) (first_occ (map slot_of ?ps))"
    by blast
  have "map (\<lambda>k. filter (\<lambda>p. slot_of p = k) ?ps) (first_occ (map slot_of ?ps))
      = [[mk_jv ''Common'' ''patch_name'' (JStr ''Strings'') [0x11, 0, 0x00]],
         [mk_jv ''Tone1'' ''pan'' (JInt 64) [0x11, 5, 0x10]]]"
    by (simp add: first_occ_def slot_of_def mk_jv_def)
  with r p show ?thesis by metis
qed

text \<open>Part parameters for slot 5 only, as a literal stream and as the decoding of one
  message: the slot is in the output.\<close>

theorem slots_become_presets_counterexample:
  "group_parameters_into_patches
     [mk_jv ''Tone1'' ''tone_switch'' (JInt 1) [0x11, 5, 0x10],
      mk_jv ''Tone1'' ''pan'' (JInt 64) [0x11, 5, 0x10]]
   = Inr [\<lparr>ps_name = ''Unknown'', ps_preset_type = ''JV-1080 Patch'',
           ps_parameters = [mk_jv ''Tone1'' ''tone_switch'' (JInt 1) [0x11, 5, 0x10],
                            mk_jv ''Tone1'' ''pan'' (JInt 64) [0x11, 5, 0x10]],
           ps_patch_number = None, ps_msb = None, ps_lsb = None, ps_pc = None\<rparr>]
   \<and> group_parameters_into_patches
       (jv_parse_sysex_file [0xF0, 0x41, 0x10, 0x6A, 0x12, 0x03, 0x05, 0x10, 0x01, 0x02, 0x03, 0xF7])
     = Inr [\<lparr>ps_name = ''Unknown'', ps_preset_type = ''JV-1080 Patch'',
             ps_parameters =
               [\<lparr>jv_group_name = ''TempTone1'', jv_parameter_name = ''param_1'',
                 jv_value = JInt 259, jv_address = [0x03, 0x05, 0x10],
                 jv_raw_message =
                   [0xF0, 0x41, 0x10, 0x6A, 0x12, 0x03, 0x05, 0x10, 0x01, 0x02, 0x03, 0xF7],
                 jv_manufacturer = None, jv_device_id = None, jv_model_id = None,
                 jv_command = None\<rparr>],
             ps_patch_number = None, ps_msb = None, ps_lsb = None, ps_pc = None\<rparr>]"
  by (simp add: jv_parse_sysex_file_def jv_parse_sysex_message_def str_int_def str_nat.simps
      assembler_simps)

section \<open>Bank select\<close>




section \<open>Index construction and round-trip lemmas\<close>

lemma fold_upd_notin: "k \<notin> fst ` set es \<Longrightarrow> fold upd es m k = m k"
  by (induction es arbitrary: m) (auto simp add: upd_def)

lemma fold_upd_mem:
  "(k, v0) \<in> set es \<Longrightarrow> \<exists>v. fold upd es m k = Some v \<and> (k, v) \<in> set es"
proof (induction es arbitrary: m v0)
  case Nil
  then show ?case by simp
next
  case (Cons e es)
  show ?case
  proof (cases "k \<in> fst ` set es")
    case True
    then obtain v1 where "(k, v1) \<in> set es" by force
    from Cons.IH [OF this, of "upd e m"] show ?thesis by auto
  next
    case False
    with Cons.prems have e: "e = (k, v0)" by force
    have "fold upd es (upd e m) k = upd e m k" using False by (rule fold_upd_notin)
    also have "\<dots> = Some v0" by (simp add: e upd_def)
    finally have "fold upd (e # es) m k = Some v0" by simp
    moreover have "(k, v0) \<in> set (e # es)" by (simp add: e)
    ultimately show ?thesis by blast
  qed
qed

lemma fold_concat: "fold f (concat xss) = fold (fold f) xss"
  by (induction xss) simp_all

lemma upd_pair: "upd (a, b) = (\<lambda>m. m(a \<mapsto> b))"
  by (rule ext) (simp add: upd_def)

lemma lookup_add_group_entries:
  assumes "lookup_add_group lk g = Inr lk'"
  shows "lk' = fold upd (group_entries g) lk"
proof -
  have f1: "\<And>ps key val m. fold (\<lambda>param lk'. lk'(key param \<mapsto> val param)) ps m
              = fold upd (map (\<lambda>param. (key param, val param)) ps) m"
    by (simp add: fold_map comp_def upd_pair)
  show ?thesis
    using assms unfolding lookup_add_group_def group_entries_def Let_def
    by (auto split: if_splits simp add: fold_concat fold_map comp_def upd_pair)
qed

lemma build_lookup_entries:
  "build_lookup_from lk gs = Inr lk' \<Longrightarrow> lk' = fold upd (index_entries gs) lk"
proof (induction gs arbitrary: lk)
  case Nil
  then show ?case by (simp add: index_entries_def)
next
  case (Cons g gs)
  from Cons.prems obtain lk1 where a: "lookup_add_group lk g = Inr lk1"
    and b: "build_lookup_from lk1 gs = Inr lk'"
    by (auto split: sum.splits)
  from Cons.IH [OF b] lookup_add_group_entries [OF a]
  show ?case by (simp add: index_entries_def)
qed

lemma encoder_entry_indexed:
  assumes "map_of gs G = Some grp" "pd \<in> set (parameters grp)"
    "\<not> (address_bytes_1_3 grp ! 0 = 0x11 \<and> prefix ''expansion_performance'' G)"
  shows "(address_bytes_1_3 grp @ [pd_offset pd], (G, pd_name pd, pd)) \<in> set (index_entries gs)"
proof -
  from assms(1) have m: "(G, grp) \<in> set gs" by (rule map_of_SomeD)
  have "(address_bytes_1_3 grp @ [pd_offset pd], (G, pd_name pd, pd)) \<in> set (group_entries (G, grp))"
    using assms(2,3) unfolding group_entries_def Let_def by (simp only: fst_conv snd_conv if_False) auto
  with m show ?thesis unfolding index_entries_def by auto
qed

lemma build_ok:
  assumes g: "map_of (parameter_groups cfg) G = Some grp"
    and p: "find (\<lambda>p. pd_name p = P) (parameters grp) = Some pd"
    and val: "case V of Scalar n \<Rightarrow> (\<forall>lo hi. pd_min pd = Some lo \<and> pd_max pd = Some hi \<longrightarrow> lo \<le> n \<and> n \<le> hi)
                | Bytes bs \<Rightarrow> True"
  shows "build_sysex_message cfg G P V dev =
     Inr ([0xF0, manufacturer_id (cfg_common_info cfg), dev, model_id (cfg_common_info cfg),
            command_id_dt1 (cfg_common_info cfg)]
           @ ((address_bytes_1_3 grp @ [pd_offset pd]) @ data_of V)
           @ [calculate_checksum ((address_bytes_1_3 grp @ [pd_offset pd]) @ data_of V), 0xF7])"
proof (cases V)
  case (Scalar n)
  then show ?thesis using val
    by (cases "pd_min pd"; cases "pd_max pd")
       (simp_all add: build_sysex_message_def g p Let_def data_of_def)
next
  case (Bytes bs)
  then show ?thesis by (simp add: build_sysex_message_def g p Let_def data_of_def)
qed

lemma parse_built:
  assumes a: "length addr = 4" and l: "lk addr = Some (G, P, d)"
  shows "parse_sysex_message cfg lk
           ([0xF0, manufacturer_id (cfg_common_info cfg), dev, model_id (cfg_common_info cfg),
             command_id_dt1 (cfg_common_info cfg)] @ (addr @ data) @ [calculate_checksum (addr @ data), 0xF7])
         = Some \<lparr>group_name = G, parameter_name = P,
                 pvalue = (if length data = 1 then Scalar (data ! 0) else Bytes data),
                 address = addr,
                 raw_message = [0xF0, manufacturer_id (cfg_common_info cfg), dev, model_id (cfg_common_info cfg),
             command_id_dt1 (cfg_common_info cfg)] @ (addr @ data) @ [calculate_checksum (addr @ data), 0xF7]\<rparr>"
proof -
  let ?hdr = "[0xF0, manufacturer_id (cfg_common_info cfg), dev, model_id (cfg_common_info cfg),
             command_id_dt1 (cfg_common_info cfg)]"
  let ?m = "?hdr @ (addr @ data) @ [calculate_checksum (addr @ data), 0xF7]"
  have h5: "length ?hdr = 5" by simp
  have b1: "1 \<le> length (addr @ data)" using a by simp
  have v: "validate_roland_header (cfg_common_info cfg) ?m"
    by (simp add: validate_roland_header_def)
  have c: "verify_checksum ?m"
    using verify_checksum_split [OF h5 b1, of "calculate_checksum (addr @ data)" "0xF7"] by simp
  have len: "\<not> length ?m < 10" using a by simp
  have s1: "drop 5 (take 9 ?m) = addr" using a by simp
  have "drop 9 (take (length ?m - 2) ?m) = drop 9 (?hdr @ (addr @ data))"
    by (simp only: take_len_minus_2)
  also have "\<dots> = data" using a by simp
  finally have s2: "drop 9 (take (length ?m - 2) ?m) = data" .
  show ?thesis
    unfolding parse_sysex_message_def Let_def s1 s2
    using v c len l by (simp only: if_True if_False not_True_eq_False simp_thms option.case prod.case)
qed

lemma value_round:
  "(if length (data_of V) = 1 then Scalar (data_of V ! 0) else Bytes (data_of V)) = decoded_value V"
proof (cases V)
  case (Scalar n)
  then show ?thesis by (simp add: data_of_def)
next
  case (Bytes bs)
  show ?thesis
  proof (cases bs)
    case Nil
    then show ?thesis using Bytes by (simp add: data_of_def)
  next
    case (Cons b cs)
    then show ?thesis using Bytes by (cases cs) (simp_all add: data_of_def)
  qed
qed

lemma ex_entries: "index_entries example_groups =
  [([0,0,0,0], (''system_common'', ''Panel mode'', mk_param ''Panel mode'' 0x00 0 2)),
   ([1,0,0,0], (''temp_performance_common'', ''Performance name 1'', mk_param ''Performance name 1'' 0x00 32 127)),
   ([1,0,0,1], (''temp_performance_common'', ''Performance name 2'', mk_param ''Performance name 2'' 0x01 32 127)),
   ([0x11,0,0x24,0], (''expansion_patch_part_2'', ''Bank MSB'', mk_param ''Bank MSB'' 0x00 0 127)),
   ([0x11,0,0x24,1], (''expansion_patch_part_2'', ''Bank LSB'', mk_param ''Bank LSB'' 0x01 0 127)),
   ([0x11,9,0x24,0], (''expansion_rhythm_part_2'', ''Tone Switch'', mk_param ''Tone Switch'' 0x00 0 1)),
   ([0x11,9,0x61,0], (''expansion_rhythm_part_63'', ''Tone Switch'', mk_param ''Tone Switch'' 0x00 0 1)),
   ([0x11,9,0x62,0], (''expansion_rhythm_part_64'', ''Tone Switch'', mk_param ''Tone Switch'' 0x00 0 1))]"
  by (simp add: index_entries_def group_entries_def example_groups_def Let_def mk_param_def)

section \<open>Round trip\<close>

text \<open>
  C1 (as amended).  Let the catalog define group \<open>G\<close> with an address prefix of three
  bytes and, in it, parameter \<open>P\<close>; let \<open>G\<close> not be a slot-expanded group (a group in
  address space \<open>0x11\<close> whose name starts with \<open>expansion_performance\<close>: the index
  holds those under the name \<open>G_perf_NN\<close>); and let every index entry for the
  parameter's address carry the names \<open>G\<close> and \<open>P\<close> (no other definition shares
  the address).  Then for every value \<open>V\<close> the encoder accepts (a scalar within the
  bounds, or any byte list) the encoder returns a message, and the decoder applied to
  it yields the parameter with group name \<open>G\<close>, parameter name \<open>P\<close>, the address of
  the definition, and the value \<open>V\<close>, except that a byte list of exactly one
  element \<open>[b]\<close> comes back as the scalar \<open>b\<close>.  When no byte between the first
  and the last of the message is \<open>0xF0\<close> or \<open>0xF7\<close>, framing the message gives that
  one message.
\<close>

theorem round_trip:
  assumes lk: "build_address_lookup cfg = Inr lk"
    and g: "map_of (parameter_groups cfg) G = Some grp"
    and p: "find (\<lambda>p. pd_name p = P) (parameters grp) = Some pd"
    and len: "length (address_bytes_1_3 grp) = 3"
    and plain: "\<not> (address_bytes_1_3 grp ! 0 = 0x11 \<and> prefix ''expansion_performance'' G)"
    and uniq: "\<forall>e\<in>set (index_entries (parameter_groups cfg)).
                 fst e = address_bytes_1_3 grp @ [pd_offset pd]
                   \<longrightarrow> fst (snd e) = G \<and> fst (snd (snd e)) = P"
    and val: "case V of
                Scalar n \<Rightarrow> (\<forall>lo hi. pd_min pd = Some lo \<and> pd_max pd = Some hi \<longrightarrow> lo \<le> n \<and> n \<le> hi)
              | Bytes bs \<Rightarrow> True"
  shows "\<exists>msg. build_sysex_message cfg G P V dev = Inr msg
     \<and> parse_sysex_message cfg lk msg
         = Some \<lparr>group_name = G, parameter_name = P, pvalue = decoded_value V,
                 address = address_bytes_1_3 grp @ [pd_offset pd], raw_message = msg\<rparr>
     \<and> ((\<forall>b\<in>set (butlast (tl msg)). b \<noteq> 0xF0 \<and> b \<noteq> 0xF7) \<longrightarrow>
           extract_sysex_messages msg = [msg])"
proof -
  let ?addr = "address_bytes_1_3 grp @ [pd_offset pd]"
  let ?hdr = "[0xF0, manufacturer_id (cfg_common_info cfg), dev, model_id (cfg_common_info cfg),
             command_id_dt1 (cfg_common_info cfg)]"
  let ?msg = "?hdr @ (?addr @ data_of V) @ [calculate_checksum (?addr @ data_of V), 0xF7]"
  have b: "build_sysex_message cfg G P V dev = Inr ?msg"
    by (rule build_ok [OF g p val])
  from p have pd: "pd \<in> set (parameters grp)" and nm: "pd_name pd = P"
    by (auto simp add: find_Some_iff)
  have ent: "(?addr, (G, pd_name pd, pd)) \<in> set (index_entries (parameter_groups cfg))"
    by (rule encoder_entry_indexed [OF g pd plain])
  from lk have "lk = fold upd (index_entries (parameter_groups cfg)) Map.empty"
    unfolding build_address_lookup_def by (rule build_lookup_entries)
  with fold_upd_mem [OF ent, of Map.empty] obtain v where
    v: "lk ?addr = Some v" and vm: "(?addr, v) \<in> set (index_entries (parameter_groups cfg))"
    by auto
  from uniq vm have "fst v = G \<and> fst (snd v) = P" by fastforce
  then obtain d where "v = (G, P, d)" by (cases v) auto
  with v have l: "lk ?addr = Some (G, P, d)" by simp
  have a4: "length ?addr = 4" using len by simp
  have pr: "parse_sysex_message cfg lk ?msg
         = Some \<lparr>group_name = G, parameter_name = P, pvalue = decoded_value V,
                 address = ?addr, raw_message = ?msg\<rparr>"
    using parse_built [where addr = ?addr and lk = lk and G = G and P = P and d = d
                         and cfg = cfg and dev = dev and data = "data_of V", OF a4 l]
    by (simp only: value_round)
  have fr: "(\<forall>b\<in>set (butlast (tl ?msg)). b \<noteq> 0xF0 \<and> b \<noteq> 0xF7) \<longrightarrow>
           extract_sysex_messages ?msg = [?msg]"
  proof
    assume f: "\<forall>b\<in>set (butlast (tl ?msg)). b \<noteq> 0xF0 \<and> b \<noteq> 0xF7"
    let ?body = "[manufacturer_id (cfg_common_info cfg), dev, model_id (cfg_common_info cfg),
             command_id_dt1 (cfg_common_info cfg)] @ (?addr @ data_of V) @ [calculate_checksum (?addr @ data_of V)]"
    have m: "?msg = 0xF0 # ?body @ [0xF7]" by simp
    have "butlast (tl ?msg) = ?body" by (simp add: butlast_append)
    with f have n0: "0xF0 \<notin> set ?body" and n7: "0xF7 \<notin> set ?body" by auto
    have "extract_sysex_messages (0xF0 # ?body @ [0xF7]) = [0xF0 # ?body @ [0xF7]]"
      unfolding extract_sysex_messages_def frame_run_message [OF n0 n7] by simp
    then show "extract_sysex_messages ?msg = [?msg]" by (simp only: m)
  qed
  from b pr fr show ?thesis by blast
qed

theorem round_trip_witness:
  "build_sysex_message example_config ''temp_performance_common'' ''Performance name 1'' (Scalar 65) 0x10
      = Inr [0xF0, 0x41, 0x10, 0x6A, 0x12, 0x01, 0x00, 0x00, 0x00, 0x41, 0x3E, 0xF7]
   \<and> parse_sysex_message example_config example_lookup
        [0xF0, 0x41, 0x10, 0x6A, 0x12, 0x01, 0x00, 0x00, 0x00, 0x41, 0x3E, 0xF7]
      = Some \<lparr>group_name = ''temp_performance_common'', parameter_name = ''Performance name 1'',
              pvalue = Scalar 65, address = [0x01, 0x00, 0x00, 0x00],
              raw_message = [0xF0, 0x41, 0x10, 0x6A, 0x12, 0x01, 0x00, 0x00, 0x00, 0x41, 0x3E, 0xF7]\<rparr>
   \<and> extract_sysex_messages [0xF0, 0x41, 0x10, 0x6A, 0x12, 0x01, 0x00, 0x00, 0x00, 0x41, 0x3E, 0xF7]
      = [[0xF0, 0x41, 0x10, 0x6A, 0x12, 0x01, 0x00, 0x00, 0x00, 0x41, 0x3E, 0xF7]]"
proof -
  let ?grp = "\<lparr>address_bytes_1_3 = [0x01, 0x00, 0x00],
         parameters = [mk_param ''Performance name 1'' 0x00 32 127,
                       mk_param ''Performance name 2'' 0x01 32 127]\<rparr>"
  let ?pd = "mk_param ''Performance name 1'' 0x00 32 127"
  let ?m = "[0xF0, 0x41, 0x10, 0x6A, 0x12, 0x01, 0x00, 0x00, 0x00, 0x41, 0x3E, 0xF7] :: int list"
  have g: "map_of (parameter_groups example_config) ''temp_performance_common'' = Some ?grp"
    by (simp add: example_config_def example_groups_def)
  have p: "find (\<lambda>p. pd_name p = ''Performance name 1'') (parameters ?grp) = Some ?pd"
    by (simp add: mk_param_def)
  have len: "length (address_bytes_1_3 ?grp) = 3" by simp
  have plain: "\<not> (address_bytes_1_3 ?grp ! 0 = 0x11
                  \<and> prefix ''expansion_performance'' ''temp_performance_common'')" by simp
  have uniq: "\<forall>e\<in>set (index_entries (parameter_groups example_config)).
                 fst e = address_bytes_1_3 ?grp @ [pd_offset ?pd]
                   \<longrightarrow> fst (snd e) = ''temp_performance_common''
                       \<and> fst (snd (snd e)) = ''Performance name 1''"
    by (simp add: example_config_def ex_entries mk_param_def)
  have val: "case Scalar 65 of
                Scalar n \<Rightarrow> (\<forall>lo hi. pd_min ?pd = Some lo \<and> pd_max ?pd = Some hi \<longrightarrow> lo \<le> n \<and> n \<le> hi)
              | Bytes bs \<Rightarrow> True"
    by (simp add: mk_param_def)
  have b: "build_sysex_message example_config ''temp_performance_common'' ''Performance name 1''
             (Scalar 65) 0x10 = Inr ?m"
    by (simp add: build_sysex_message_def example_config_def example_groups_def mk_param_def
        calculate_checksum_def)
  from round_trip [OF example_lookup_built g p len plain uniq val, of "0x10"] b
  have "parse_sysex_message example_config example_lookup ?m
         = Some \<lparr>group_name = ''temp_performance_common'', parameter_name = ''Performance name 1'',
                 pvalue = decoded_value (Scalar 65),
                 address = address_bytes_1_3 ?grp @ [pd_offset ?pd], raw_message = ?m\<rparr>
     \<and> ((\<forall>b\<in>set (butlast (tl ?m)). b \<noteq> 0xF0 \<and> b \<noteq> 0xF7) \<longrightarrow>
           extract_sysex_messages ?m = [?m])"
    by auto
  then show ?thesis using b by (simp add: mk_param_def)
qed

theorem round_trip_counterexample:
  "build_sysex_message example_config ''temp_performance_common'' ''Performance name 1'' (Bytes [65]) 0x10
      = Inr [0xF0, 0x41, 0x10, 0x6A, 0x12, 0x01, 0x00, 0x00, 0x00, 0x41, 0x3E, 0xF7]
   \<and> parse_sysex_message example_config example_lookup
        [0xF0, 0x41, 0x10, 0x6A, 0x12, 0x01, 0x00, 0x00, 0x00, 0x41, 0x3E, 0xF7]
      = Some \<lparr>group_name = ''temp_performance_common'', parameter_name = ''Performance name 1'',
              pvalue = Scalar 65, address = [0x01, 0x00, 0x00, 0x00],
              raw_message = [0xF0, 0x41, 0x10, 0x6A, 0x12, 0x01, 0x00, 0x00, 0x00, 0x41, 0x3E, 0xF7]\<rparr>
   \<and> Scalar 65 \<noteq> Bytes [65]"
  by (simp add: build_sysex_message_def calculate_checksum_def example_lookup_simps sysex_decode_simps)

text \<open>In a slot-expanded group the decoded group name carries the slot suffix.\<close>

lemma expansion_performance_suffix:
  "build_sysex_message tiny_config ''expansion_performance_common'' ''Performance name 1''
       (Scalar 65) 0x10
     = Inr [0xF0, 0x41, 0x10, 0x6A, 0x12, 0x11, 0x00, 0x00, 0x00, 0x41, 0x2E, 0xF7]
   \<and> (case build_address_lookup tiny_config of
         Inl e \<Rightarrow> False
       | Inr lk \<Rightarrow>
           map_option group_name (parse_sysex_message tiny_config lk
               [0xF0, 0x41, 0x10, 0x6A, 0x12, 0x11, 0x00, 0x00, 0x00, 0x41, 0x2E, 0xF7])
             = Some ''expansion_performance_common_perf_00'')"
  by (simp add: tiny_config_def build_sysex_message_def calculate_checksum_def
      build_address_lookup_def lookup_add_group_def Let_def mk_param_def upt_conv_Cons
      fmt02d_def str_int_def str_nat.simps parse_sysex_message_def validate_roland_header_def
      verify_checksum_def)

end
